theory Spec2Isabelle
  imports Main "HOL-Library.Word"
begin

unbundle bit_operations_syntax

section \<open>Byte strings\<close>

text \<open>
  A \<^verbatim>\<open>std::string\<close> is a sequence of bytes; it is modelled by \<^typ>\<open>string\<close>, whose
  characters are exactly the 256 byte values.

  \<^verbatim>\<open>s.find(needle)\<close> returns the lowest position at which \<^verbatim>\<open>needle\<close> occurs in
  \<^verbatim>\<open>s\<close>, or \<^verbatim>\<open>npos\<close> (here \<open>None\<close>) when it does not occur.
\<close>

fun string_find_from :: "string \<Rightarrow> string \<Rightarrow> nat \<Rightarrow> nat option" where
  "string_find_from [] needle pos = (if needle = [] then Some pos else None)"
| "string_find_from (c # cs) needle pos =
     (if take (length needle) (c # cs) = needle then Some pos
      else string_find_from cs needle (pos + 1))"

definition string_find :: "string \<Rightarrow> string \<Rightarrow> nat option" where
  "string_find s needle = string_find_from s needle 0"

text \<open>The test \<^verbatim>\<open>s.find(needle) != std::string::npos\<close>.\<close>

definition contains :: "string \<Rightarrow> string \<Rightarrow> bool" where
  "contains s needle = (string_find s needle \<noteq> None)"

section \<open>Errors\<close>

text \<open>
  \<open>Out_Of_Range\<close> is the \<^verbatim>\<open>std::out_of_range\<close> of \<^verbatim>\<open>std::map::at\<close>,
  \<open>Logic_Error\<close> the \<^verbatim>\<open>std::logic_error\<close> thrown by \<^verbatim>\<open>update\<close>,
  \<open>Fatal\<close> the abort of \<^verbatim>\<open>qFatal\<close>, \<open>Assert_Failure\<close> a failed \<^verbatim>\<open>Q_ASSERT\<close>.
  A \<^verbatim>\<open>Botan::Exception\<close> is a value of its own type, carrying \<^verbatim>\<open>what()\<close>;
  \<open>Botan_Error\<close> is such an exception leaving a function uncaught.
\<close>

datatype botan_exception = Botan_Exception string

datatype error =
    Out_Of_Range
  | Logic_Error string
  | Fatal string
  | Assert_Failure
  | Botan_Error botan_exception

section \<open>The method registry\<close>

datatype CipherType = STREAM | AEAD

text \<open>
  \<^verbatim>\<open>struct CipherInfo\<close> is declared in \<^verbatim>\<open>cipher.h\<close>; its members are taken in the
  order of the initialisers of \<^verbatim>\<open>cipherInfoMap\<close>. An initialiser with four
  clauses leaves the two trailing \<^verbatim>\<open>int\<close> members value-initialised, that is \<open>0\<close>.
\<close>

record CipherInfo =
  internalName :: string
  keyLen :: int
  ivLen :: int
  type :: CipherType
  saltLen :: int
  tagLen :: int

definition stream_info :: "string \<Rightarrow> int \<Rightarrow> int \<Rightarrow> CipherInfo" where
  "stream_info n k i =
     \<lparr>internalName = n, keyLen = k, ivLen = i, type = STREAM, saltLen = 0, tagLen = 0\<rparr>"

text \<open>
  A \<^verbatim>\<open>std::map<std::string, V>\<close> is kept as an association list in ascending key
  order, the order in which the map is traversed. Keys compare bytewise
  (\<^verbatim>\<open>std::string::compare\<close>); inserting a key that is present changes nothing.
\<close>

fun string_less :: "string \<Rightarrow> string \<Rightarrow> bool" where
  "string_less [] [] = False"
| "string_less [] (y # ys) = True"
| "string_less (x # xs) [] = False"
| "string_less (x # xs) (y # ys) =
     ((of_char x :: nat) < of_char y \<or> (x = y \<and> string_less xs ys))"

fun std_map_insert :: "string \<times> 'v \<Rightarrow> (string \<times> 'v) list \<Rightarrow> (string \<times> 'v) list" where
  "std_map_insert (k, v) [] = [(k, v)]"
| "std_map_insert (k, v) ((k', v') # m) =
     (if string_less k k' then (k, v) # (k', v') # m
      else if string_less k' k then (k', v') # std_map_insert (k, v) m
      else (k', v') # m)"

definition std_map :: "(string \<times> 'v) list \<Rightarrow> (string \<times> 'v) list" where
  "std_map inits = foldl (\<lambda>m e. std_map_insert e m) [] inits"

text \<open>\<^verbatim>\<open>std::map::at\<close>: the mapped value, or \<^verbatim>\<open>std::out_of_range\<close>.\<close>

definition map_at :: "(string \<times> 'v) list \<Rightarrow> string \<Rightarrow> error + 'v" where
  "map_at m k = (case map_of m k of None \<Rightarrow> Inl Out_Of_Range | Some v \<Rightarrow> Inr v)"

text \<open>
  \<^verbatim>\<open>Cipher::cipherInfoMap\<close>, built from the source's initialiser list. The last row is
  compiled only under \<^verbatim>\<open>USE_BOTAN2\<close>, the argument.
\<close>

definition cipherInfoMap :: "bool \<Rightarrow> (string \<times> CipherInfo) list" where
  "cipherInfoMap use_botan2 = std_map
     ([(''aes-128-cfb'', stream_info ''AES-128/CFB'' 16 16),
       (''aes-192-cfb'', stream_info ''AES-192/CFB'' 24 16),
       (''aes-256-cfb'', stream_info ''AES-256/CFB'' 32 16),
       (''aes-128-ctr'', stream_info ''AES-128/CTR-BE'' 16 16),
       (''aes-192-ctr'', stream_info ''AES-192/CTR-BE'' 24 16),
       (''aes-256-ctr'', stream_info ''AES-256/CTR-BE'' 32 16),
       (''bf-cfb'', stream_info ''Blowfish/CFB'' 16 8),
       (''camellia-128-cfb'', stream_info ''Camellia-128/CFB'' 16 16),
       (''camellia-192-cfb'', stream_info ''Camellia-192/CFB'' 24 16),
       (''camellia-256-cfb'', stream_info ''Camellia-256/CFB'' 32 16),
       (''cast5-cfb'', stream_info ''CAST-128/CFB'' 16 8),
       (''chacha20'', stream_info ''ChaCha'' 32 8),
       (''chacha20-ietf'', stream_info ''ChaCha'' 32 12),
       (''des-cfb'', stream_info ''DES/CFB'' 8 8),
       (''idea-cfb'', stream_info ''IDEA/CFB'' 16 8),
       (''rc2-cfb'', stream_info ''RC2/CFB'' 16 8),
       (''rc4-md5'', stream_info ''RC4-MD5'' 16 16),
       (''salsa20'', stream_info ''Salsa20'' 32 8),
       (''seed-cfb'', stream_info ''SEED/CFB'' 16 16),
       (''serpent-256-cfb'', stream_info ''Serpent/CFB'' 32 16)]
      @ (if use_botan2
         then [(''aes-256-gcm'',
                \<lparr>internalName = ''AES-128/GCM'', keyLen = 32, ivLen = 12, type = AEAD,
                 saltLen = 32, tagLen = 16\<rparr>)]
         else []))"

definition kdfLabel :: string where
  "kdfLabel = ''ss-subkey''"

definition AUTH_LEN :: int where
  "AUTH_LEN = 10"

section \<open>Library hashing: SHA-1, HMAC, HKDF\<close>

text \<open>
  \<^verbatim>\<open>QMessageAuthenticationCode::hash(msg, key, QCryptographicHash::Sha1)\<close> of Qt and
  \<^verbatim>\<open>Botan::HKDF(Botan::HMAC(Botan::SHA_160))\<close> are library routines outside the
  repository. They are modelled by the algorithms they implement: SHA-1 (FIPS 180-4),
  HMAC (RFC 2104) and HKDF (RFC 5869).
\<close>

type_synonym u32 = "32 word"
type_synonym sha1_state = "u32 \<times> u32 \<times> u32 \<times> u32 \<times> u32"

definition rotl :: "nat \<Rightarrow> u32 \<Rightarrow> u32" where
  "rotl n x = push_bit n x OR drop_bit (32 - n) x"

text \<open>Big-endian: four bytes to a word, a word to four bytes, a 64-bit length to eight.\<close>

definition be32 :: "string \<Rightarrow> u32" where
  "be32 bs = foldl (\<lambda>acc c. push_bit 8 acc OR of_char c) 0 (take 4 bs)"

definition bytes_of_u32 :: "u32 \<Rightarrow> string" where
  "bytes_of_u32 w = map (\<lambda>i. char_of (unat (drop_bit (8 * i) w))) [3, 2, 1, 0]"

definition bytes_of_u64 :: "64 word \<Rightarrow> string" where
  "bytes_of_u64 w = map (\<lambda>i. char_of (unat (drop_bit (8 * i) w))) [7, 6, 5, 4, 3, 2, 1, 0]"

text \<open>
  Padding: the byte \<open>0x80\<close>, zero bytes up to 56 modulo 64, then the message length in
  bits as a 64-bit big-endian number.
\<close>

definition sha1_pad :: "string \<Rightarrow> string" where
  "sha1_pad m = m @ CHR 0x80 # replicate ((119 - length m mod 64) mod 64) (CHR 0x00)
                  @ bytes_of_u64 (of_nat (8 * length m))"

definition sha1_f :: "nat \<Rightarrow> u32 \<Rightarrow> u32 \<Rightarrow> u32 \<Rightarrow> u32" where
  "sha1_f t b c d =
     (if t < 20 then (b AND c) OR (NOT b AND d)
      else if t < 40 then b XOR c XOR d
      else if t < 60 then (b AND c) OR (b AND d) OR (c AND d)
      else b XOR c XOR d)"

definition sha1_k :: "nat \<Rightarrow> u32" where
  "sha1_k t =
     (if t < 20 then 0x5A827999
      else if t < 40 then 0x6ED9EBA1
      else if t < 60 then 0x8F1BBCDC
      else 0xCA62C1D6)"

fun sha1_round :: "nat \<Rightarrow> u32 \<Rightarrow> sha1_state \<Rightarrow> sha1_state" where
  "sha1_round t w (a, b, c, d, e) =
     (rotl 5 a + sha1_f t b c d + e + sha1_k t + w, a, rotl 30 b, c, d)"

text \<open>
  \<open>n\<close> rounds from round \<open>t\<close> on. The list holds the sixteen most recent words of the
  message schedule, \<open>W\<^sub>t\<close> first; each round consumes \<open>W\<^sub>t\<close> and appends \<open>W\<^sub>t\<^sub>+\<^sub>1\<^sub>6\<close>.
\<close>

fun sha1_rounds :: "nat \<Rightarrow> nat \<Rightarrow> u32 list \<times> sha1_state \<Rightarrow> u32 list \<times> sha1_state" where
  "sha1_rounds 0 t (ws, s) = (ws, s)"
| "sha1_rounds (Suc n) t (ws, s) =
     sha1_rounds n (t + 1)
       (tl ws @ [rotl 1 (ws ! 13 XOR ws ! 8 XOR ws ! 2 XOR ws ! 0)],
        sha1_round t (hd ws) s)"

definition sha1_words :: "string \<Rightarrow> u32 list" where
  "sha1_words blk = map (\<lambda>i. be32 (drop (4 * i) blk)) [0..<16]"

fun sha1_add :: "sha1_state \<Rightarrow> sha1_state \<Rightarrow> sha1_state" where
  "sha1_add (h0, h1, h2, h3, h4) (a, b, c, d, e) = (h0 + a, h1 + b, h2 + c, h3 + d, h4 + e)"

definition sha1_compress :: "sha1_state \<Rightarrow> string \<Rightarrow> sha1_state" where
  "sha1_compress h blk = sha1_add h (snd (sha1_rounds 80 0 (sha1_words blk, h)))"

fun sha1_blocks :: "nat \<Rightarrow> sha1_state \<Rightarrow> string \<Rightarrow> sha1_state" where
  "sha1_blocks 0 h bs = h"
| "sha1_blocks (Suc n) h bs = sha1_blocks n (sha1_compress h (take 64 bs)) (drop 64 bs)"

definition sha1_init :: sha1_state where
  "sha1_init = (0x67452301, 0xEFCDAB89, 0x98BADCFE, 0x10325476, 0xC3D2E1F0)"

fun sha1_digest :: "sha1_state \<Rightarrow> string" where
  "sha1_digest (h0, h1, h2, h3, h4) = concat (map bytes_of_u32 [h0, h1, h2, h3, h4])"

definition sha1 :: "string \<Rightarrow> string" where
  "sha1 m = (let p = sha1_pad m in sha1_digest (sha1_blocks (length p div 64) sha1_init p))"

definition xor_char :: "char \<Rightarrow> char \<Rightarrow> char" where
  "xor_char a b = char_of ((of_char a :: nat) XOR of_char b)"

text \<open>HMAC: a key longer than the block is hashed first, then zero-padded to 64 bytes.\<close>

definition hmac_key :: "string \<Rightarrow> string" where
  "hmac_key key =
     (let k0 = (if 64 < length key then sha1 key else key)
      in k0 @ replicate (64 - length k0) (CHR 0x00))"

definition hmac_sha1 :: "string \<Rightarrow> string \<Rightarrow> string" where
  "hmac_sha1 key msg =
     sha1 (map (xor_char (CHR 0x5C)) (hmac_key key)
           @ sha1 (map (xor_char (CHR 0x36)) (hmac_key key) @ msg))"

text \<open>
  HKDF. Extract keys the MAC with the salt (a block of zeros for an empty salt); expand
  chains \<open>T\<^sub>i = HMAC(prk, T\<^sub>i\<^sub>-\<^sub>1 | label | i)\<close> with a one-byte counter from 1, so at
  most 255 blocks, and truncates to the requested length.
\<close>

definition hkdf_extract :: "string \<Rightarrow> string \<Rightarrow> string" where
  "hkdf_extract salt secret =
     hmac_sha1 (if salt = [] then replicate 20 (CHR 0x00) else salt) secret"

fun hkdf_expand_loop :: "nat \<Rightarrow> string \<Rightarrow> string \<Rightarrow> string \<Rightarrow> nat \<Rightarrow> nat \<Rightarrow> string" where
  "hkdf_expand_loop 0 prk label h counter remaining = []"
| "hkdf_expand_loop (Suc fuel) prk label h counter remaining =
     (if remaining = 0 then []
      else let h' = hmac_sha1 prk (h @ label @ [char_of counter]);
               written = min (length h') remaining
           in take written h'
              @ hkdf_expand_loop fuel prk label h' (counter + 1) (remaining - written))"

definition hkdf_expand :: "string \<Rightarrow> string \<Rightarrow> nat \<Rightarrow> string" where
  "hkdf_expand prk label key_len = hkdf_expand_loop 255 prk label [] 1 key_len"

datatype HashFunction = SHA_160
datatype MessageAuthenticationCode = HMAC HashFunction
datatype KDF = HKDF MessageAuthenticationCode

text \<open>\<^verbatim>\<open>kdf->derive_key(key_len, secret, secret_len, salt, label)\<close>.\<close>

fun derive_key :: "KDF \<Rightarrow> nat \<Rightarrow> string \<Rightarrow> string \<Rightarrow> string \<Rightarrow> string" where
  "derive_key (HKDF (HMAC SHA_160)) key_len secret salt label =
     hkdf_expand (hkdf_extract salt secret) label key_len"

section \<open>The crypto provider and the dedicated engines\<close>

text \<open>
  The primitives are not part of \<^verbatim>\<open>cipher.cpp\<close>: Botan's \<^verbatim>\<open>get_cipher\<close> and
  \<^verbatim>\<open>Pipe\<close>, and the classes \<^verbatim>\<open>RC4\<close> and \<^verbatim>\<open>ChaCha\<close> of the library. They
  are parameters of the model, collected in one record together with the build flag
  \<^verbatim>\<open>USE_BOTAN2\<close>:
  \<^item> \<open>RC4_new key iv\<close> and \<open>ChaCha_new key iv\<close> are the engines' constructors (which
    may throw), \<open>RC4_update\<close> and \<open>ChaCha_update\<close> their \<^verbatim>\<open>update\<close>, returning the
    output and the advanced engine;
  \<^item> \<open>get_cipher name key iv dir\<close> is the keyed filter, or the \<^verbatim>\<open>Botan::Exception\<close>
    raised; \<open>get_cipher_unkeyed name dir\<close> is the two-argument overload;
  \<^item> \<open>process_msg\<close> is \<^verbatim>\<open>pipe->process_msg(data)\<close> followed by
    \<^verbatim>\<open>pipe->read_all(Botan::Pipe::LAST_MESSAGE)\<close>: the bytes read or the exception
    raised, and the pipe afterwards. A pipe owns its filter and nothing else, so it is
    identified with the filter.
\<close>

datatype direction = ENCRYPTION | DECRYPTION

record ('r, 'c, 'p) provider =
  USE_BOTAN2 :: bool
  RC4_new :: "string \<Rightarrow> string \<Rightarrow> error + 'r"
  RC4_update :: "'r \<Rightarrow> string \<Rightarrow> string \<times> 'r"
  ChaCha_new :: "string \<Rightarrow> string \<Rightarrow> error + 'c"
  ChaCha_update :: "'c \<Rightarrow> string \<Rightarrow> string \<times> 'c"
  get_cipher :: "string \<Rightarrow> string \<Rightarrow> string \<Rightarrow> direction \<Rightarrow> botan_exception + 'p"
  get_cipher_unkeyed :: "string \<Rightarrow> direction \<Rightarrow> botan_exception + 'p"
  process_msg :: "'p \<Rightarrow> string \<Rightarrow> (botan_exception + string) \<times> 'p"

section \<open>The Cipher instance\<close>

text \<open>
  The three \<^verbatim>\<open>std::unique_ptr\<close> backends are options. The members
  \<^verbatim>\<open>msgHashFunc\<close>, \<^verbatim>\<open>msgAuthCode\<close> and \<^verbatim>\<open>kdf\<close> are set together; \<open>kdf\<close> stands
  for the three.
\<close>

record ('r, 'c, 'p) Cipher =
  key :: string
  iv :: string
  cipherInfo :: CipherInfo
  rc4 :: "'r option"
  chacha :: "'c option"
  pipe :: "'p option"
  kdf :: "KDF option"

text \<open>
  The constructor. The member initialiser \<^verbatim>\<open>cipherInfoMap.at(method)\<close> throws for an
  unregistered method. \<^verbatim>\<open>qFatal\<close> prints the message and aborts: no instance.
\<close>

definition Cipher_new ::
  "('r, 'c, 'p) provider \<Rightarrow> string \<Rightarrow> string \<Rightarrow> string \<Rightarrow> bool \<Rightarrow> error + ('r, 'c, 'p) Cipher"
where
  "Cipher_new P method psKey iv0 encrypt =
     (case map_at (cipherInfoMap (USE_BOTAN2 P)) method of
        Inl e \<Rightarrow> Inl e
      | Inr info \<Rightarrow>
          (let this = \<lparr>key = psKey, iv = iv0, cipherInfo = info,
                       rc4 = None, chacha = None, pipe = None, kdf = None\<rparr>
           in if contains method ''rc4'' then
                (case RC4_new P psKey iv0 of
                   Inl e \<Rightarrow> Inl e
                 | Inr r \<Rightarrow> Inr (this\<lparr>rc4 := Some r\<rparr>))
              else if \<not> USE_BOTAN2 P \<and> contains method ''chacha20'' then
                (case ChaCha_new P psKey iv0 of
                   Inl e \<Rightarrow> Inl e
                 | Inr c \<Rightarrow> Inr (this\<lparr>chacha := Some c\<rparr>))
              else
                (let this' = (if USE_BOTAN2 P \<and> type info = AEAD
                              then this\<lparr>kdf := Some (HKDF (HMAC SHA_160))\<rparr> else this)
                 in case get_cipher P (internalName info) psKey iv0
                           (if encrypt then ENCRYPTION else DECRYPTION) of
                      Inl (Botan_Exception what) \<Rightarrow> Inl (Fatal (what @ [CHR 0x0A]))
                    | Inr flt \<Rightarrow> Inr (this'\<lparr>pipe := Some flt\<rparr>))))"

text \<open>
  \<^verbatim>\<open>update\<close> returns what the call returns or throws, and the instance afterwards.
\<close>

definition update ::
  "('r, 'c, 'p) provider \<Rightarrow> ('r, 'c, 'p) Cipher \<Rightarrow> string
     \<Rightarrow> (error + string) \<times> ('r, 'c, 'p) Cipher"
where
  "update P this data =
     (case chacha this of
        Some c \<Rightarrow>
          (case ChaCha_update P c data of (out, c') \<Rightarrow> (Inr out, this\<lparr>chacha := Some c'\<rparr>))
      | None \<Rightarrow>
     (case rc4 this of
        Some r \<Rightarrow>
          (case RC4_update P r data of (out, r') \<Rightarrow> (Inr out, this\<lparr>rc4 := Some r'\<rparr>))
      | None \<Rightarrow>
     (case pipe this of
        Some p \<Rightarrow>
          (case process_msg P p data of
             (Inl e, p') \<Rightarrow> (Inl (Botan_Error e), this\<lparr>pipe := Some p'\<rparr>)
           | (Inr out, p') \<Rightarrow> (Inr out, this\<lparr>pipe := Some p'\<rparr>))
      | None \<Rightarrow>
          (Inl (Logic_Error ''Underlying ciphers are all uninitialised!''), this))))"

text \<open>The instance after a sequence of \<^verbatim>\<open>update\<close> calls, whatever each returned.\<close>

fun updates ::
  "('r, 'c, 'p) provider \<Rightarrow> ('r, 'c, 'p) Cipher \<Rightarrow> string list \<Rightarrow> ('r, 'c, 'p) Cipher"
where
  "updates P this [] = this"
| "updates P this (d # ds) = updates P (snd (update P this d)) ds"

definition getIV :: "('r, 'c, 'p) Cipher \<Rightarrow> string" where
  "getIV this = iv this"

text \<open>How many of the three backend pointers are set.\<close>

definition backends_set :: "('r, 'c, 'p) Cipher \<Rightarrow> nat" where
  "backends_set this =
     (if rc4 this = None then 0 else 1) + (if chacha this = None then 0 else 1)
     + (if pipe this = None then 0 else 1)"

section \<open>Helpers\<close>

text \<open>
  \<^verbatim>\<open>Botan::AutoSeeded_RNG\<close> is an external source of bytes: a fresh generator is the
  sequence of bytes it is going to deliver, and \<^verbatim>\<open>random_vec(n)\<close> takes the first \<open>n\<close>.
  The \<^verbatim>\<open>int\<close> argument of \<^verbatim>\<open>randomIv\<close> converts to \<^verbatim>\<open>size_t\<close> (64 bits).
\<close>

type_synonym rng = "nat \<Rightarrow> char"

definition random_vec :: "rng \<Rightarrow> nat \<Rightarrow> string" where
  "random_vec g n = map g [0..<n]"

definition size_t_of_int :: "int \<Rightarrow> nat" where
  "size_t_of_int n = nat (n mod 2 ^ 64)"

definition randomIv :: "rng \<Rightarrow> int \<Rightarrow> string" where
  "randomIv g len = (if len = 0 then [] else random_vec g (size_t_of_int len))"

text \<open>The overload \<^verbatim>\<open>randomIv(const std::string &method)\<close>.\<close>

definition randomIv_method :: "bool \<Rightarrow> rng \<Rightarrow> string \<Rightarrow> error + string" where
  "randomIv_method use_botan2 g method =
     (case map_at (cipherInfoMap use_botan2) method of
        Inl e \<Rightarrow> Inl e
      | Inr info \<Rightarrow> Inr (randomIv g (ivLen info)))"

text \<open>\<^verbatim>\<open>QByteArray::left(len)\<close>: the first \<open>len\<close> bytes, all of them if there are fewer.\<close>

definition left :: "int \<Rightarrow> string \<Rightarrow> string" where
  "left len bs = take (nat len) bs"

definition hmacSha1 :: "string \<Rightarrow> string \<Rightarrow> string" where
  "hmacSha1 k msg = left AUTH_LEN (hmac_sha1 k msg)"

text \<open>
  \<^verbatim>\<open>isSupported\<close>. The only exception the provider raises here is caught; the result
  type keeps the error alternative, to state that it is never taken.
\<close>

definition isSupported :: "('r, 'c, 'p) provider \<Rightarrow> string \<Rightarrow> error + bool" where
  "isSupported P method =
     (if \<not> USE_BOTAN2 P \<and> contains method ''chacha20'' then Inr True
      else if \<not> contains method ''rc4'' then
        (case get_cipher_unkeyed P method ENCRYPTION of
           Inl (Botan_Exception what) \<Rightarrow> Inr False
         | Inr flt \<Rightarrow> Inr True)
      else Inr True)"

fun supportedMethods_loop ::
  "('r, 'c, 'p) provider \<Rightarrow> (string \<times> CipherInfo) list \<Rightarrow> string list \<Rightarrow> error + string list"
where
  "supportedMethods_loop P [] acc = Inr acc"
| "supportedMethods_loop P (cipher # rest) acc =
     (case isSupported P (internalName (snd cipher)) of
        Inl e \<Rightarrow> Inl e
      | Inr b \<Rightarrow> supportedMethods_loop P rest (if b then acc @ [fst cipher] else acc))"

definition supportedMethods :: "('r, 'c, 'p) provider \<Rightarrow> error + string list" where
  "supportedMethods P = supportedMethods_loop P (cipherInfoMap (USE_BOTAN2 P)) []"

text \<open>
  \<^verbatim>\<open>deriveSubkey\<close>, compiled under \<^verbatim>\<open>USE_BOTAN2\<close>. \<^verbatim>\<open>Q_ASSERT(kdf)\<close> stops a debug
  build when the instance has no KDF.
\<close>

definition deriveSubkey :: "rng \<Rightarrow> ('r, 'c, 'p) Cipher \<Rightarrow> error + string" where
  "deriveSubkey g this =
     (case kdf this of
        None \<Rightarrow> Inl Assert_Failure
      | Some k \<Rightarrow>
          (let salt = randomIv g (saltLen (cipherInfo this))
           in Inr (derive_key k (size_t_of_int (keyLen (cipherInfo this))) (key this) salt
                     kdfLabel)))"

section \<open>A small provider for concrete runs\<close>

text \<open>
  A provider that knows the algorithms of a given list and whose every primitive is the
  bytewise exclusive-or with one pad byte, folded from key and IV.
\<close>

definition toy_pad :: "string \<Rightarrow> string \<Rightarrow> char" where
  "toy_pad k i = fold xor_char (k @ i) (CHR 0x00)"

definition toy_xor :: "char \<Rightarrow> string \<Rightarrow> (botan_exception + string) \<times> char" where
  "toy_xor pad d = (Inr (map (xor_char pad) d), pad)"

definition toy_provider :: "bool \<Rightarrow> string list \<Rightarrow> (char, char, char) provider" where
  "toy_provider use_botan2 known =
     \<lparr>USE_BOTAN2 = use_botan2,
      RC4_new = (\<lambda>k i. Inr (toy_pad k i)),
      RC4_update = (\<lambda>r d. (map (xor_char r) d, r)),
      ChaCha_new = (\<lambda>k i. Inr (toy_pad k i)),
      ChaCha_update = (\<lambda>c d. (map (xor_char c) d, c)),
      get_cipher = (\<lambda>n k i dir.
        if n \<in> set known then Inr (toy_pad k i)
        else Inl (Botan_Exception ''Could not find any algorithm'')),
      get_cipher_unkeyed = (\<lambda>n dir.
        if n \<in> set known then Inr (CHR 0x00)
        else Inl (Botan_Exception ''Could not find any algorithm'')),
      process_msg = toy_xor\<rparr>"

definition zero_rng :: rng where
  "zero_rng n = CHR 0x00"

section \<open>The catalogue of the specification\<close>

text \<open>
  The catalogue table of the specification, row by row: user name, then internal name,
  key length, IV length, category and, where the table gives them, salt and tag length.
  It is written from the specification's table, to be compared with the registry built
  from the source.
\<close>

type_synonym catalogue_row = "string \<times> int \<times> int \<times> CipherType \<times> (int \<times> int) option"

definition spec_catalogue :: "(string \<times> catalogue_row) list" where
  "spec_catalogue =
     [(''aes-128-cfb'', ''AES-128/CFB'', 16, 16, STREAM, None),
      (''aes-192-cfb'', ''AES-192/CFB'', 24, 16, STREAM, None),
      (''aes-256-cfb'', ''AES-256/CFB'', 32, 16, STREAM, None),
      (''aes-128-ctr'', ''AES-128/CTR-BE'', 16, 16, STREAM, None),
      (''aes-192-ctr'', ''AES-192/CTR-BE'', 24, 16, STREAM, None),
      (''aes-256-ctr'', ''AES-256/CTR-BE'', 32, 16, STREAM, None),
      (''bf-cfb'', ''Blowfish/CFB'', 16, 8, STREAM, None),
      (''camellia-128-cfb'', ''Camellia-128/CFB'', 16, 16, STREAM, None),
      (''camellia-192-cfb'', ''Camellia-192/CFB'', 24, 16, STREAM, None),
      (''camellia-256-cfb'', ''Camellia-256/CFB'', 32, 16, STREAM, None),
      (''cast5-cfb'', ''CAST-128/CFB'', 16, 8, STREAM, None),
      (''chacha20'', ''ChaCha'', 32, 8, STREAM, None),
      (''chacha20-ietf'', ''ChaCha'', 32, 12, STREAM, None),
      (''des-cfb'', ''DES/CFB'', 8, 8, STREAM, None),
      (''idea-cfb'', ''IDEA/CFB'', 16, 8, STREAM, None),
      (''rc2-cfb'', ''RC2/CFB'', 16, 8, STREAM, None),
      (''rc4-md5'', ''RC4-MD5'', 16, 16, STREAM, None),
      (''salsa20'', ''Salsa20'', 32, 8, STREAM, None),
      (''seed-cfb'', ''SEED/CFB'', 16, 16, STREAM, None),
      (''serpent-256-cfb'', ''Serpent/CFB'', 32, 16, STREAM, None),
      (''aes-256-gcm'', ''AES-128/GCM'', 32, 12, AEAD, Some (32, 16))]"

fun matches_row :: "CipherInfo \<Rightarrow> catalogue_row \<Rightarrow> bool" where
  "matches_row ci (internal, k, i, cat, st) =
     (internalName ci = internal \<and> keyLen ci = k \<and> ivLen ci = i \<and> type ci = cat
      \<and> (case st of None \<Rightarrow> True | Some (s, t) \<Rightarrow> saltLen ci = s \<and> tagLen ci = t))"

text \<open>The row of the AEAD suite is available only under \<^verbatim>\<open>USE_BOTAN2\<close>.\<close>

fun row_available :: "bool \<Rightarrow> catalogue_row \<Rightarrow> bool" where
  "row_available use_botan2 (internal, k, i, cat, st) = (cat = AEAD \<longrightarrow> use_botan2)"

section \<open>The contract of invertible primitives\<close>

text \<open>
  Modelled from the spec: the classes \<^verbatim>\<open>RC4\<close> and \<^verbatim>\<open>ChaCha\<close> of the library
  and the provider's filters are not in \<^verbatim>\<open>cipher.cpp\<close>. The specification says of
  them that a decryptor built with the parameters of an encryptor recovers what the
  encryptor was fed (a single message each). For the two engines, which ignore the
  direction, this is: a fresh engine undoes what an equal fresh engine did.
\<close>

definition primitives_invert :: "('r, 'c, 'p) provider \<Rightarrow> bool" where
  "primitives_invert P \<longleftrightarrow>
     (\<forall>k i r p. RC4_new P k i = Inr r \<longrightarrow>
        fst (RC4_update P r (fst (RC4_update P r p))) = p)
     \<and> (\<forall>k i c p. ChaCha_new P k i = Inr c \<longrightarrow>
        fst (ChaCha_update P c (fst (ChaCha_update P c p))) = p)
     \<and> (\<forall>n k i fe fd p.
          get_cipher P n k i ENCRYPTION = Inr fe \<longrightarrow> get_cipher P n k i DECRYPTION = Inr fd \<longrightarrow>
          (\<exists>ct. fst (process_msg P fe p) = Inr ct \<and> fst (process_msg P fd ct) = Inr p))"

section \<open>Concrete data for runs of the model\<close>

definition toy_key :: string where "toy_key = replicate 32 (CHR ''k'')"

definition toy_iv :: string where "toy_iv = replicate 16 (CHR ''i'')"

definition toy_known :: "string list" where "toy_known = [''AES-256/CFB'', ''AES-128/GCM'']"

text \<open>
  The cipher names a Botan 1.x build answers for among the registry's internal names:
  it has neither \<^verbatim>\<open>ChaCha\<close> nor anything called \<^verbatim>\<open>RC4-MD5\<close>, which is why the
  library brings its own engines for the two.
\<close>

definition botan1_names :: "string list" where
  "botan1_names = [''AES-128/CFB'', ''AES-192/CFB'', ''AES-256/CFB'',
  ''AES-128/CTR-BE'', ''AES-192/CTR-BE'', ''AES-256/CTR-BE'', ''Blowfish/CFB'',
  ''Camellia-128/CFB'', ''Camellia-192/CFB'', ''Camellia-256/CFB'', ''CAST-128/CFB'',
  ''DES/CFB'', ''IDEA/CFB'', ''RC2/CFB'', ''Salsa20'', ''SEED/CFB'', ''Serpent/CFB'']"

definition toy_aead_cipher :: "(char, char, char) Cipher" where
  "toy_aead_cipher =
     \<lparr>key = toy_key, iv = toy_iv,
      cipherInfo = \<lparr>internalName = ''AES-128/GCM'', keyLen = 32, ivLen = 12, type = AEAD,
                     saltLen = 32, tagLen = 16\<rparr>,
      rc4 = None, chacha = None, pipe = Some (toy_pad toy_key toy_iv),
      kdf = Some (HKDF (HMAC SHA_160))\<rparr>"

section \<open>Properties of the registry\<close>

lemma cipherInfoMap_entries:
  "cipherInfoMap b =
     [(''aes-128-cfb'', stream_info ''AES-128/CFB'' 16 16),
      (''aes-128-ctr'', stream_info ''AES-128/CTR-BE'' 16 16),
      (''aes-192-cfb'', stream_info ''AES-192/CFB'' 24 16),
      (''aes-192-ctr'', stream_info ''AES-192/CTR-BE'' 24 16),
      (''aes-256-cfb'', stream_info ''AES-256/CFB'' 32 16),
      (''aes-256-ctr'', stream_info ''AES-256/CTR-BE'' 32 16)]
     @ (if b
        then [(''aes-256-gcm'',
               \<lparr>internalName = ''AES-128/GCM'', keyLen = 32, ivLen = 12, type = AEAD,
                saltLen = 32, tagLen = 16\<rparr>)]
        else [])
     @ [(''bf-cfb'', stream_info ''Blowfish/CFB'' 16 8),
      (''camellia-128-cfb'', stream_info ''Camellia-128/CFB'' 16 16),
      (''camellia-192-cfb'', stream_info ''Camellia-192/CFB'' 24 16),
      (''camellia-256-cfb'', stream_info ''Camellia-256/CFB'' 32 16),
      (''cast5-cfb'', stream_info ''CAST-128/CFB'' 16 8),
      (''chacha20'', stream_info ''ChaCha'' 32 8),
      (''chacha20-ietf'', stream_info ''ChaCha'' 32 12),
      (''des-cfb'', stream_info ''DES/CFB'' 8 8),
      (''idea-cfb'', stream_info ''IDEA/CFB'' 16 8),
      (''rc2-cfb'', stream_info ''RC2/CFB'' 16 8),
      (''rc4-md5'', stream_info ''RC4-MD5'' 16 16),
      (''salsa20'', stream_info ''Salsa20'' 32 8),
      (''seed-cfb'', stream_info ''SEED/CFB'' 16 16),
      (''serpent-256-cfb'', stream_info ''Serpent/CFB'' 32 16)]"
  by (cases b) (simp_all add: cipherInfoMap_def std_map_def)

lemma map_at_stream_rows:
  "map_at (cipherInfoMap b) ''aes-128-cfb'' = Inr (stream_info ''AES-128/CFB'' 16 16)"
  "map_at (cipherInfoMap b) ''aes-192-cfb'' = Inr (stream_info ''AES-192/CFB'' 24 16)"
  "map_at (cipherInfoMap b) ''aes-256-cfb'' = Inr (stream_info ''AES-256/CFB'' 32 16)"
  "map_at (cipherInfoMap b) ''aes-128-ctr'' = Inr (stream_info ''AES-128/CTR-BE'' 16 16)"
  "map_at (cipherInfoMap b) ''aes-192-ctr'' = Inr (stream_info ''AES-192/CTR-BE'' 24 16)"
  "map_at (cipherInfoMap b) ''aes-256-ctr'' = Inr (stream_info ''AES-256/CTR-BE'' 32 16)"
  "map_at (cipherInfoMap b) ''bf-cfb'' = Inr (stream_info ''Blowfish/CFB'' 16 8)"
  "map_at (cipherInfoMap b) ''camellia-128-cfb'' = Inr (stream_info ''Camellia-128/CFB'' 16 16)"
  "map_at (cipherInfoMap b) ''camellia-192-cfb'' = Inr (stream_info ''Camellia-192/CFB'' 24 16)"
  "map_at (cipherInfoMap b) ''camellia-256-cfb'' = Inr (stream_info ''Camellia-256/CFB'' 32 16)"
  "map_at (cipherInfoMap b) ''cast5-cfb'' = Inr (stream_info ''CAST-128/CFB'' 16 8)"
  "map_at (cipherInfoMap b) ''chacha20'' = Inr (stream_info ''ChaCha'' 32 8)"
  "map_at (cipherInfoMap b) ''chacha20-ietf'' = Inr (stream_info ''ChaCha'' 32 12)"
  "map_at (cipherInfoMap b) ''des-cfb'' = Inr (stream_info ''DES/CFB'' 8 8)"
  "map_at (cipherInfoMap b) ''idea-cfb'' = Inr (stream_info ''IDEA/CFB'' 16 8)"
  "map_at (cipherInfoMap b) ''rc2-cfb'' = Inr (stream_info ''RC2/CFB'' 16 8)"
  "map_at (cipherInfoMap b) ''rc4-md5'' = Inr (stream_info ''RC4-MD5'' 16 16)"
  "map_at (cipherInfoMap b) ''salsa20'' = Inr (stream_info ''Salsa20'' 32 8)"
  "map_at (cipherInfoMap b) ''seed-cfb'' = Inr (stream_info ''SEED/CFB'' 16 16)"
  "map_at (cipherInfoMap b) ''serpent-256-cfb'' = Inr (stream_info ''Serpent/CFB'' 32 16)"
  by (simp_all add: map_at_def cipherInfoMap_entries)

lemma map_at_aead_row:
  "map_at (cipherInfoMap True) ''aes-256-gcm'' =
     Inr \<lparr>internalName = ''AES-128/GCM'', keyLen = 32, ivLen = 12, type = AEAD,
          saltLen = 32, tagLen = 16\<rparr>"
  "map_at (cipherInfoMap False) ''aes-256-gcm'' = Inl Out_Of_Range"
  by (simp_all add: map_at_def cipherInfoMap_entries)

lemma map_at_InrD: "map_at m k = Inr v \<Longrightarrow> (k, v) \<in> set m"
  by (auto simp: map_at_def split: option.splits dest: map_of_SomeD)

lemma registry_facts:
  "\<forall>(n, ci) \<in> set (cipherInfoMap b).
      0 < keyLen ci \<and> (ivLen ci = 8 \<or> ivLen ci = 12 \<or> ivLen ci = 16)
      \<and> (type ci = AEAD \<longrightarrow> n = ''aes-256-gcm'' \<and> b \<and> keyLen ci = 32 \<and> saltLen ci = 32)"
  by (simp add: cipherInfoMap_entries stream_info_def)

lemma keyLen_positive:
  "(n, ci) \<in> set (cipherInfoMap b) \<Longrightarrow> 0 < keyLen ci"
  using registry_facts [of b] by blast

lemma registry_ivLen:
  "(n, ci) \<in> set (cipherInfoMap b) \<Longrightarrow> ivLen ci = 8 \<or> ivLen ci = 12 \<or> ivLen ci = 16"
  using registry_facts [of b] by blast

lemma registry_aead:
  "(n, ci) \<in> set (cipherInfoMap b) \<Longrightarrow> type ci = AEAD \<Longrightarrow>
     n = ''aes-256-gcm'' \<and> b \<and> keyLen ci = 32 \<and> saltLen ci = 32"
  using registry_facts [of b] by blast

text \<open>
  \<^bold>\<open>C1.\<close> Every row of the specification's catalogue that is available is found in the
  registry under its name, with the listed internal name, key length, IV length and
  category (and salt and tag length for the AEAD row); \<^verbatim>\<open>chacha20\<close> has a 32-byte key
  and an 8-byte IV, \<^verbatim>\<open>chacha20-ietf\<close> a 32-byte key and a 12-byte IV; under
  \<^verbatim>\<open>USE_BOTAN2\<close>, \<^verbatim>\<open>aes-256-gcm\<close> maps to \<^verbatim>\<open>AES-128/GCM\<close> with key 32, IV 12,
  salt 32 and tag 16; every entry of the registry has a positive key length.
\<close>

theorem registry_catalogue:
  "(\<forall>(name, row) \<in> set spec_catalogue. row_available b row \<longrightarrow>
       (\<exists>ci. map_at (cipherInfoMap b) name = Inr ci \<and> matches_row ci row))
   \<and> (\<exists>ci. map_at (cipherInfoMap b) ''chacha20'' = Inr ci \<and> keyLen ci = 32 \<and> ivLen ci = 8)
   \<and> (\<exists>ci. map_at (cipherInfoMap b) ''chacha20-ietf'' = Inr ci \<and> keyLen ci = 32
          \<and> ivLen ci = 12)
   \<and> (b \<longrightarrow> map_at (cipherInfoMap b) ''aes-256-gcm'' =
         Inr \<lparr>internalName = ''AES-128/GCM'', keyLen = 32, ivLen = 12, type = AEAD,
              saltLen = 32, tagLen = 16\<rparr>)
   \<and> (\<forall>(name, ci) \<in> set (cipherInfoMap b). 0 < keyLen ci)"
proof (intro conjI)
  show "\<forall>(name, row) \<in> set spec_catalogue. row_available b row \<longrightarrow>
       (\<exists>ci. map_at (cipherInfoMap b) name = Inr ci \<and> matches_row ci row)"
    using map_at_aead_row(1)
    by (cases b) (simp_all add: spec_catalogue_def map_at_stream_rows stream_info_def)
  show "b \<longrightarrow> map_at (cipherInfoMap b) ''aes-256-gcm'' =
         Inr \<lparr>internalName = ''AES-128/GCM'', keyLen = 32, ivLen = 12, type = AEAD,
              saltLen = 32, tagLen = 16\<rparr>"
    using map_at_aead_row(1) by (cases b) simp_all
  show "\<forall>(name, ci) \<in> set (cipherInfoMap b). 0 < keyLen ci"
    using keyLen_positive by blast
qed (simp_all add: map_at_stream_rows stream_info_def)

theorem registry_catalogue_witness:
  "row_available True (''AES-128/GCM'', 32, 12, AEAD, Some (32, 16))
   \<and> (\<exists>ci. map_at (cipherInfoMap True) ''aes-256-gcm'' = Inr ci
         \<and> internalName ci = ''AES-128/GCM'' \<and> keyLen ci = 32 \<and> ivLen ci = 12
         \<and> type ci = AEAD \<and> saltLen ci = 32 \<and> tagLen ci = 16 \<and> 0 < keyLen ci)"
  using registry_catalogue [of True] by simp

section \<open>Construction and dispatch\<close>

lemma contains_simps:
  "contains ''RC4-MD5'' ''rc4'' = False"
  "contains ''ChaCha'' ''chacha20'' = False"
  "contains ''rc4-md5'' ''rc4'' = True"
  "contains ''chacha20'' ''rc4'' = False"
  "contains ''chacha20'' ''chacha20'' = True"
  "contains ''aes-256-cfb'' ''rc4'' = False"
  "contains ''aes-256-cfb'' ''chacha20'' = False"
  "contains ''aes-256-gcm'' ''rc4'' = False"
  "contains ''aes-256-gcm'' ''chacha20'' = False"
  by (simp_all add: contains_def string_find_def)

lemma Cipher_new_cases:
  assumes "Cipher_new P m k i e = Inr c"
  obtains
    (RC4) info r where
      "map_at (cipherInfoMap (USE_BOTAN2 P)) m = Inr info" "contains m ''rc4''"
      "RC4_new P k i = Inr r"
      "c = \<lparr>key = k, iv = i, cipherInfo = info, rc4 = Some r, chacha = None, pipe = None,
            kdf = None\<rparr>"
  | (ChaCha) info ch where
      "map_at (cipherInfoMap (USE_BOTAN2 P)) m = Inr info" "\<not> contains m ''rc4''"
      "\<not> USE_BOTAN2 P" "contains m ''chacha20''" "ChaCha_new P k i = Inr ch"
      "c = \<lparr>key = k, iv = i, cipherInfo = info, rc4 = None, chacha = Some ch, pipe = None,
            kdf = None\<rparr>"
  | (Pipe) info f where
      "map_at (cipherInfoMap (USE_BOTAN2 P)) m = Inr info" "\<not> contains m ''rc4''"
      "USE_BOTAN2 P \<or> \<not> contains m ''chacha20''"
      "get_cipher P (internalName info) k i (if e then ENCRYPTION else DECRYPTION) = Inr f"
      "c = \<lparr>key = k, iv = i, cipherInfo = info, rc4 = None, chacha = None, pipe = Some f,
            kdf = (if USE_BOTAN2 P \<and> type info = AEAD then Some (HKDF (HMAC SHA_160))
                   else None)\<rparr>"
  using assms unfolding Cipher_new_def Let_def
  by (auto split: sum.splits if_splits botan_exception.splits)

lemma toy_provider_sel:
  "USE_BOTAN2 (toy_provider b ns) = b"
  "RC4_new (toy_provider b ns) k i = Inr (toy_pad k i)"
  "RC4_update (toy_provider b ns) r d = (map (xor_char r) d, r)"
  "ChaCha_new (toy_provider b ns) k i = Inr (toy_pad k i)"
  "ChaCha_update (toy_provider b ns) r d = (map (xor_char r) d, r)"
  "get_cipher (toy_provider b ns) n k i dir =
     (if n \<in> set ns then Inr (toy_pad k i)
      else Inl (Botan_Exception ''Could not find any algorithm''))"
  "get_cipher_unkeyed (toy_provider b ns) n dir =
     (if n \<in> set ns then Inr (CHR 0x00)
      else Inl (Botan_Exception ''Could not find any algorithm''))"
  "process_msg (toy_provider b ns) = toy_xor"
  by (simp_all add: toy_provider_def)

lemma toy_new:
  "Cipher_new (toy_provider False toy_known) ''rc4-md5'' toy_key toy_iv True =
     Inr \<lparr>key = toy_key, iv = toy_iv, cipherInfo = stream_info ''RC4-MD5'' 16 16,
          rc4 = Some (toy_pad toy_key toy_iv), chacha = None, pipe = None, kdf = None\<rparr>"
  "Cipher_new (toy_provider False toy_known) ''chacha20'' toy_key toy_iv True =
     Inr \<lparr>key = toy_key, iv = toy_iv, cipherInfo = stream_info ''ChaCha'' 32 8,
          rc4 = None, chacha = Some (toy_pad toy_key toy_iv), pipe = None, kdf = None\<rparr>"
  "Cipher_new (toy_provider b toy_known) ''aes-256-cfb'' toy_key toy_iv e =
     Inr \<lparr>key = toy_key, iv = toy_iv, cipherInfo = stream_info ''AES-256/CFB'' 32 16,
          rc4 = None, chacha = None, pipe = Some (toy_pad toy_key toy_iv), kdf = None\<rparr>"
  "Cipher_new (toy_provider True toy_known) ''aes-256-gcm'' toy_key toy_iv e =
     Inr \<lparr>key = toy_key, iv = toy_iv,
          cipherInfo = \<lparr>internalName = ''AES-128/GCM'', keyLen = 32, ivLen = 12, type = AEAD,
                         saltLen = 32, tagLen = 16\<rparr>,
          rc4 = None, chacha = None, pipe = Some (toy_pad toy_key toy_iv),
          kdf = Some (HKDF (HMAC SHA_160))\<rparr>"
  by (simp_all add: Cipher_new_def map_at_stream_rows map_at_aead_row toy_provider_sel
      contains_simps toy_known_def stream_info_def)

text \<open>
  \<^bold>\<open>C2.\<close> The constructor dispatches on the first match. An instance built for a method
  whose name contains \<^verbatim>\<open>rc4\<close> holds the RC4 engine made from key and IV, and nothing
  else; otherwise, without \<^verbatim>\<open>USE_BOTAN2\<close> and for a name containing
  \<^verbatim>\<open>chacha20\<close>, it holds the ChaCha engine, and nothing else; otherwise it holds the
  pipe around the provider's keyed filter for the internal name, and nothing else.
\<close>

theorem constructor_dispatch:
  assumes "Cipher_new P method k i e = Inr c"
  shows "(contains method ''rc4'' \<longrightarrow>
            (\<exists>r. RC4_new P k i = Inr r \<and> rc4 c = Some r) \<and> chacha c = None \<and> pipe c = None)
       \<and> (\<not> contains method ''rc4'' \<and> \<not> USE_BOTAN2 P \<and> contains method ''chacha20'' \<longrightarrow>
            (\<exists>ch. ChaCha_new P k i = Inr ch \<and> chacha c = Some ch) \<and> rc4 c = None
            \<and> pipe c = None)
       \<and> (\<not> contains method ''rc4'' \<and> \<not> (\<not> USE_BOTAN2 P \<and> contains method ''chacha20'') \<longrightarrow>
            (\<exists>f. get_cipher P (internalName (cipherInfo c)) k i
                    (if e then ENCRYPTION else DECRYPTION) = Inr f \<and> pipe c = Some f)
            \<and> rc4 c = None \<and> chacha c = None)"
  using assms by (rule Cipher_new_cases) auto

theorem constructor_dispatch_witness:
  "(\<exists>c. Cipher_new (toy_provider False toy_known) ''rc4-md5'' toy_key toy_iv True = Inr c
        \<and> rc4 c = Some (toy_pad toy_key toy_iv) \<and> chacha c = None \<and> pipe c = None)
   \<and> (\<exists>c. Cipher_new (toy_provider False toy_known) ''chacha20'' toy_key toy_iv True = Inr c
        \<and> chacha c = Some (toy_pad toy_key toy_iv) \<and> rc4 c = None \<and> pipe c = None)
   \<and> (\<exists>c. Cipher_new (toy_provider False toy_known) ''aes-256-cfb'' toy_key toy_iv True = Inr c
        \<and> pipe c = Some (toy_pad toy_key toy_iv) \<and> rc4 c = None \<and> chacha c = None)"
  using constructor_dispatch [OF toy_new(1)] constructor_dispatch [OF toy_new(2)]
    constructor_dispatch [OF toy_new(3), of False True]
  by (simp add: toy_new contains_simps toy_provider_sel)

section \<open>The backend invariant and the frame of update\<close>

lemma update_frame:
  "key (snd (update P c d)) = key c"
  "iv (snd (update P c d)) = iv c"
  "cipherInfo (snd (update P c d)) = cipherInfo c"
  "kdf (snd (update P c d)) = kdf c"
  by (auto simp: update_def split: option.splits prod.splits sum.splits)

lemma update_backend_presence:
  "(rc4 (snd (update P c d)) = None) = (rc4 c = None)"
  "(chacha (snd (update P c d)) = None) = (chacha c = None)"
  "(pipe (snd (update P c d)) = None) = (pipe c = None)"
  by (auto simp: update_def split: option.splits prod.splits sum.splits)

lemma update_backends_set: "backends_set (snd (update P c d)) = backends_set c"
  by (simp add: backends_set_def update_backend_presence)

lemma updates_backends_set: "backends_set (updates P c ds) = backends_set c"
  by (induction ds arbitrary: c) (simp_all add: update_backends_set)

lemma updates_frame:
  "key (updates P c ds) = key c \<and> iv (updates P c ds) = iv c
   \<and> cipherInfo (updates P c ds) = cipherInfo c \<and> kdf (updates P c ds) = kdf c"
  by (induction ds arbitrary: c) (simp_all add: update_frame)

lemma update_logic_error_iff:
  "(\<exists>msg. fst (update P c d) = Inl (Logic_Error msg))
     = (rc4 c = None \<and> chacha c = None \<and> pipe c = None)"
  by (auto simp: update_def split: option.splits prod.splits sum.splits)

lemma backends_set_zero_iff:
  "(backends_set c = 0) = (rc4 c = None \<and> chacha c = None \<and> pipe c = None)"
  by (simp add: backends_set_def)

lemma Cipher_new_backends_set: "Cipher_new P m k i e = Inr c \<Longrightarrow> backends_set c = 1"
  by (erule Cipher_new_cases) (simp_all add: backends_set_def)

text \<open>
  \<^bold>\<open>C3.\<close> A constructed instance has exactly one of its three backends set, and so has
  the instance after any sequence of \<^verbatim>\<open>update\<close> calls; \<^verbatim>\<open>update\<close> throws its
  logic error exactly when no backend is set, hence never on a constructed instance.
\<close>

theorem one_backend_invariant:
  "(Cipher_new P m k i e = Inr c \<longrightarrow>
      backends_set (updates P c ds) = 1
      \<and> (\<forall>msg. fst (update P (updates P c ds) d) \<noteq> Inl (Logic_Error msg)))
   \<and> ((fst (update P c' d') = Inl (Logic_Error ''Underlying ciphers are all uninitialised!''))
        = (backends_set c' = 0))
   \<and> ((\<exists>msg. fst (update P c' d') = Inl (Logic_Error msg)) = (backends_set c' = 0))"
proof (intro conjI impI)
  assume new: "Cipher_new P m k i e = Inr c"
  then show one: "backends_set (updates P c ds) = 1"
    by (simp add: updates_backends_set Cipher_new_backends_set)
  then have "backends_set (updates P c ds) \<noteq> 0" by simp
  then have "\<not> (\<exists>msg. fst (update P (updates P c ds) d) = Inl (Logic_Error msg))"
    unfolding update_logic_error_iff backends_set_zero_iff .
  then show "\<forall>msg. fst (update P (updates P c ds) d) \<noteq> Inl (Logic_Error msg)" by blast
next
  show "(fst (update P c' d') = Inl (Logic_Error ''Underlying ciphers are all uninitialised!''))
        = (backends_set c' = 0)"
    by (auto simp: update_def backends_set_def split: option.splits prod.splits sum.splits)
next
  show "(\<exists>msg. fst (update P c' d') = Inl (Logic_Error msg)) = (backends_set c' = 0)"
    by (simp only: update_logic_error_iff backends_set_zero_iff)
qed

theorem one_backend_invariant_witness:
  "Cipher_new (toy_provider False toy_known) ''aes-256-cfb'' toy_key toy_iv True =
     Inr \<lparr>key = toy_key, iv = toy_iv, cipherInfo = stream_info ''AES-256/CFB'' 32 16,
          rc4 = None, chacha = None, pipe = Some (toy_pad toy_key toy_iv), kdf = None\<rparr>
   \<and> backends_set (updates (toy_provider False toy_known)
        \<lparr>key = toy_key, iv = toy_iv, cipherInfo = stream_info ''AES-256/CFB'' 32 16,
          rc4 = None, chacha = None, pipe = Some (toy_pad toy_key toy_iv), kdf = None\<rparr>
        [''abc'', '''', ''de'']) = 1
   \<and> (\<forall>msg. fst (update (toy_provider False toy_known)
        (updates (toy_provider False toy_known)
          \<lparr>key = toy_key, iv = toy_iv, cipherInfo = stream_info ''AES-256/CFB'' 32 16,
           rc4 = None, chacha = None, pipe = Some (toy_pad toy_key toy_iv), kdf = None\<rparr>
          [''abc'', '''', ''de'']) ''fg'') \<noteq> Inl (Logic_Error msg))"
  using one_backend_invariant [of "toy_provider False toy_known" "''aes-256-cfb''" toy_key
      toy_iv True _ "[''abc'', '''', ''de'']" "''fg''"] toy_new(3) [of False True]
  by simp

text \<open>
  \<^bold>\<open>C10.\<close> After any sequence of \<^verbatim>\<open>update\<close> calls \<^verbatim>\<open>getIV\<close> returns the IV given to
  the constructor, and key and descriptor are those bound at construction. One
  \<^verbatim>\<open>update\<close> changes no member but the backend it selects: key, IV, descriptor and
  KDF stay, and so do the two backends that were not selected.
\<close>

theorem update_frame_getIV:
  "(Cipher_new P m k i e = Inr c \<longrightarrow>
      getIV c = i \<and> getIV (updates P c ds) = i \<and> key (updates P c ds) = k
      \<and> cipherInfo (updates P c ds) = cipherInfo c
      \<and> map_at (cipherInfoMap (USE_BOTAN2 P)) m = Inr (cipherInfo c))
   \<and> getIV (updates P c' ds) = getIV c'
   \<and> key (snd (update P c' d)) = key c' \<and> iv (snd (update P c' d)) = iv c'
   \<and> cipherInfo (snd (update P c' d)) = cipherInfo c' \<and> kdf (snd (update P c' d)) = kdf c'
   \<and> (chacha c' \<noteq> None \<longrightarrow>
        rc4 (snd (update P c' d)) = rc4 c' \<and> pipe (snd (update P c' d)) = pipe c')
   \<and> (chacha c' = None \<and> rc4 c' \<noteq> None \<longrightarrow>
        chacha (snd (update P c' d)) = None \<and> pipe (snd (update P c' d)) = pipe c')
   \<and> (chacha c' = None \<and> rc4 c' = None \<longrightarrow>
        chacha (snd (update P c' d)) = None \<and> rc4 (snd (update P c' d)) = None)"
proof -
  have a: "Cipher_new P m k i e = Inr c \<longrightarrow>
      getIV c = i \<and> getIV (updates P c ds) = i \<and> key (updates P c ds) = k
      \<and> cipherInfo (updates P c ds) = cipherInfo c
      \<and> map_at (cipherInfoMap (USE_BOTAN2 P)) m = Inr (cipherInfo c)"
  proof
    assume "Cipher_new P m k i e = Inr c"
    then have "key c = k \<and> iv c = i \<and> map_at (cipherInfoMap (USE_BOTAN2 P)) m = Inr (cipherInfo c)"
      by (rule Cipher_new_cases) simp_all
    then show "getIV c = i \<and> getIV (updates P c ds) = i \<and> key (updates P c ds) = k
      \<and> cipherInfo (updates P c ds) = cipherInfo c
      \<and> map_at (cipherInfoMap (USE_BOTAN2 P)) m = Inr (cipherInfo c)"
      by (simp add: getIV_def updates_frame)
  qed
  have b: "(chacha c' \<noteq> None \<longrightarrow>
        rc4 (snd (update P c' d)) = rc4 c' \<and> pipe (snd (update P c' d)) = pipe c')
   \<and> (chacha c' = None \<and> rc4 c' \<noteq> None \<longrightarrow>
        chacha (snd (update P c' d)) = None \<and> pipe (snd (update P c' d)) = pipe c')
   \<and> (chacha c' = None \<and> rc4 c' = None \<longrightarrow>
        chacha (snd (update P c' d)) = None \<and> rc4 (snd (update P c' d)) = None)"
    by (auto simp: update_def split: option.splits prod.splits sum.splits)
  show ?thesis
    using a b by (simp add: update_frame updates_frame getIV_def)
qed

theorem update_frame_getIV_witness:
  "Cipher_new (toy_provider False toy_known) ''rc4-md5'' toy_key toy_iv False =
     Inr \<lparr>key = toy_key, iv = toy_iv, cipherInfo = stream_info ''RC4-MD5'' 16 16,
          rc4 = Some (toy_pad toy_key toy_iv), chacha = None, pipe = None, kdf = None\<rparr>
   \<and> getIV (updates (toy_provider False toy_known)
        \<lparr>key = toy_key, iv = toy_iv, cipherInfo = stream_info ''RC4-MD5'' 16 16,
          rc4 = Some (toy_pad toy_key toy_iv), chacha = None, pipe = None, kdf = None\<rparr>
        [''abc'', ''de'']) = toy_iv"
proof -
  have new: "Cipher_new (toy_provider False toy_known) ''rc4-md5'' toy_key toy_iv False =
     Inr \<lparr>key = toy_key, iv = toy_iv, cipherInfo = stream_info ''RC4-MD5'' 16 16,
          rc4 = Some (toy_pad toy_key toy_iv), chacha = None, pipe = None, kdf = None\<rparr>"
    by (simp add: Cipher_new_def map_at_stream_rows toy_provider_sel contains_simps)
  from update_frame_getIV [of "toy_provider False toy_known" "''rc4-md5''" toy_key toy_iv
      False _ "[''abc'', ''de'']"] new
  show ?thesis by simp
qed

section \<open>Round trip\<close>

lemma of_char_xor_char: "(of_char (xor_char a b) :: nat) = of_char a XOR of_char b"
proof -
  have "take_bit 8 ((of_char a :: nat) XOR of_char b) = take_bit 8 (of_char a) XOR take_bit 8 (of_char b)"
    by (simp add: take_bit_xor)
  also have "\<dots> = of_char a XOR of_char b"
    by (simp add: take_bit_eq_mod)
  finally show ?thesis
    by (simp add: xor_char_def take_bit_eq_mod)
qed

lemma xor_char_cancel: "xor_char a (xor_char a b) = b"
proof (rule of_char_eqI [where ?'a = nat])
  show "(of_char (xor_char a (xor_char a b)) :: nat) = of_char b"
    by (simp add: of_char_xor_char flip: xor.assoc)
qed

lemma map_xor_char_cancel: "map (xor_char a) (map (xor_char a) bs) = bs"
  by (induction bs) (simp_all add: xor_char_cancel)

lemma toy_invert: "primitives_invert (toy_provider b ns)"
  unfolding primitives_invert_def
  by (simp add: toy_provider_sel toy_xor_def o_def xor_char_cancel)

text \<open>
  \<^bold>\<open>C4.\<close> Over primitives that invert each other, an encryptor and a decryptor
  constructed with the same method, key and IV round-trip: what one \<^verbatim>\<open>update\<close> of the
  encryptor returns for \<open>p\<close>, one \<^verbatim>\<open>update\<close> of the decryptor turns back into \<open>p\<close>.
\<close>

theorem update_round_trip:
  assumes inv: "primitives_invert P"
    and enc: "Cipher_new P method k i True = Inr encryptor"
    and dec: "Cipher_new P method k i False = Inr decryptor"
  shows "\<exists>ct. fst (update P encryptor p) = Inr ct \<and> fst (update P decryptor ct) = Inr p"
  using enc
proof (cases rule: Cipher_new_cases)
  case (RC4 info r)
  from RC4(1,2,3) have "Cipher_new P method k i False = Inr encryptor"
    by (simp add: Cipher_new_def RC4(4))
  with dec have d: "decryptor = encryptor" by simp
  from inv RC4(3) have "fst (RC4_update P r (fst (RC4_update P r p))) = p"
    unfolding primitives_invert_def by blast
  then show ?thesis
    by (simp add: d RC4(4) update_def case_prod_beta)
next
  case (ChaCha info ch)
  from ChaCha(1,2,3,4,5) have "Cipher_new P method k i False = Inr encryptor"
    by (simp add: Cipher_new_def ChaCha(6))
  with dec have d: "decryptor = encryptor" by simp
  from inv ChaCha(5) have "fst (ChaCha_update P ch (fst (ChaCha_update P ch p))) = p"
    unfolding primitives_invert_def by blast
  then show ?thesis
    by (simp add: d ChaCha(6) update_def case_prod_beta)
next
  case (Pipe info fe)
  from Pipe(3) have nc: "\<not> (\<not> USE_BOTAN2 P \<and> contains method ''chacha20'')" by blast
  from dec Pipe(1,2) nc obtain fd where
    fd: "get_cipher P (internalName info) k i DECRYPTION = Inr fd" "pipe decryptor = Some fd"
      "rc4 decryptor = None" "chacha decryptor = None"
    by (auto simp: Cipher_new_def Let_def split: sum.splits botan_exception.splits if_splits)
  from Pipe(4) have fe: "get_cipher P (internalName info) k i ENCRYPTION = Inr fe" by simp
  from inv fe fd(1) obtain ct where
    ct: "fst (process_msg P fe p) = Inr ct" "fst (process_msg P fd ct) = Inr p"
    unfolding primitives_invert_def by blast
  have "fst (update P encryptor p) = Inr ct"
    using ct(1) by (simp add: Pipe(5) update_def case_prod_beta split: sum.splits)
  moreover have "fst (update P decryptor ct) = Inr p"
    using ct(2) fd(2-) by (simp add: update_def case_prod_beta split: sum.splits)
  ultimately show ?thesis by blast
qed

theorem update_round_trip_witness:
  "primitives_invert (toy_provider False toy_known)
   \<and> (\<exists>e d ct.
        Cipher_new (toy_provider False toy_known) ''aes-256-cfb'' toy_key toy_iv True = Inr e
        \<and> Cipher_new (toy_provider False toy_known) ''aes-256-cfb'' toy_key toy_iv False = Inr d
        \<and> fst (update (toy_provider False toy_known) e ''plain text'') = Inr ct
        \<and> fst (update (toy_provider False toy_known) d ct) = Inr ''plain text'')"
proof -
  have inv: "primitives_invert (toy_provider False toy_known)" by (rule toy_invert)
  have e: "Cipher_new (toy_provider False toy_known) ''aes-256-cfb'' toy_key toy_iv True =
     Inr \<lparr>key = toy_key, iv = toy_iv, cipherInfo = stream_info ''AES-256/CFB'' 32 16,
          rc4 = None, chacha = None, pipe = Some (toy_pad toy_key toy_iv), kdf = None\<rparr>"
    by (rule toy_new(3))
  have d: "Cipher_new (toy_provider False toy_known) ''aes-256-cfb'' toy_key toy_iv False =
     Inr \<lparr>key = toy_key, iv = toy_iv, cipherInfo = stream_info ''AES-256/CFB'' 32 16,
          rc4 = None, chacha = None, pipe = Some (toy_pad toy_key toy_iv), kdf = None\<rparr>"
    by (rule toy_new(3))
  from update_round_trip [OF inv e d, of "''plain text''"] inv e d
  show ?thesis by simp
qed

section \<open>Supported methods\<close>

text \<open>
  \<^bold>\<open>C6.\<close> \<^verbatim>\<open>isSupported\<close> always returns: \<open>true\<close> for a name containing \<^verbatim>\<open>rc4\<close>
  and, without \<^verbatim>\<open>USE_BOTAN2\<close>, for a name containing \<^verbatim>\<open>chacha20\<close>; for any other
  name \<open>true\<close> when the provider builds the encrypt-direction filter and \<open>false\<close>
  when the provider raises.
\<close>

theorem isSupported_total:
  "(contains n ''rc4'' \<longrightarrow> isSupported P n = Inr True)
   \<and> (\<not> USE_BOTAN2 P \<and> contains n ''chacha20'' \<longrightarrow> isSupported P n = Inr True)
   \<and> (\<not> contains n ''rc4'' \<and> \<not> (\<not> USE_BOTAN2 P \<and> contains n ''chacha20'') \<longrightarrow>
        (\<forall>f. get_cipher_unkeyed P n ENCRYPTION = Inr f \<longrightarrow> isSupported P n = Inr True)
        \<and> (\<forall>x. get_cipher_unkeyed P n ENCRYPTION = Inl x \<longrightarrow> isSupported P n = Inr False))
   \<and> (\<exists>b. isSupported P n = Inr b)"
  by (auto simp: isSupported_def split: sum.splits botan_exception.splits)

theorem isSupported_total_witness:
  "\<not> contains ''bogus-cipher'' ''rc4''
   \<and> get_cipher_unkeyed (toy_provider True toy_known) ''bogus-cipher'' ENCRYPTION =
       Inl (Botan_Exception ''Could not find any algorithm'')
   \<and> isSupported (toy_provider True toy_known) ''bogus-cipher'' = Inr False
   \<and> isSupported (toy_provider True toy_known) ''AES-256/CFB'' = Inr True"
proof -
  have a: "\<not> contains ''bogus-cipher'' ''rc4''" "\<not> contains ''AES-256/CFB'' ''rc4''"
    by (simp_all add: contains_def string_find_def)
  have b: "get_cipher_unkeyed (toy_provider True toy_known) ''bogus-cipher'' ENCRYPTION =
       Inl (Botan_Exception ''Could not find any algorithm'')"
    "get_cipher_unkeyed (toy_provider True toy_known) ''AES-256/CFB'' ENCRYPTION = Inr (CHR 0x00)"
    by (simp_all add: toy_provider_sel toy_known_def)
  have c: "USE_BOTAN2 (toy_provider True toy_known)" by (simp add: toy_provider_sel)
  from isSupported_total [of "''bogus-cipher''" "toy_provider True toy_known"]
    isSupported_total [of "''AES-256/CFB''" "toy_provider True toy_known"] a b c
  show ?thesis by simp
qed

lemma isSupported_Inr: "\<exists>b. isSupported P n = Inr b"
  by (auto simp: isSupported_def split: sum.splits botan_exception.splits)

lemma supportedMethods_loop_eq:
  "supportedMethods_loop P es acc =
     Inr (acc @ map fst (filter (\<lambda>e. isSupported P (internalName (snd e)) = Inr True) es))"
proof (induction es arbitrary: acc)
  case Nil
  show ?case by simp
next
  case (Cons e es)
  obtain b where b: "isSupported P (internalName (snd e)) = Inr b"
    using isSupported_Inr by blast
  show ?case by (cases b) (simp_all add: b Cons.IH)
qed

lemma supportedMethods_eq:
  "supportedMethods P =
     Inr (map fst (filter (\<lambda>e. isSupported P (internalName (snd e)) = Inr True)
                     (cipherInfoMap (USE_BOTAN2 P))))"
  by (simp add: supportedMethods_def supportedMethods_loop_eq)

lemma supportedMethods_subset:
  "supportedMethods P = Inr ms \<Longrightarrow> set ms \<subseteq> fst ` set (cipherInfoMap (USE_BOTAN2 P))"
  by (auto simp: supportedMethods_eq)

lemma supportedMethods_provider:
  assumes "supportedMethods P = Inr ms" "(n, ci) \<in> set (cipherInfoMap (USE_BOTAN2 P))"
    "get_cipher_unkeyed P (internalName ci) ENCRYPTION = Inr f"
  shows "n \<in> set ms"
proof -
  have "isSupported P (internalName ci) = Inr True"
    using assms(3) by (auto simp: isSupported_def)
  with assms(1,2) show ?thesis by (force simp: supportedMethods_eq)
qed

text \<open>
  \<^bold>\<open>C5.\<close> \<^verbatim>\<open>supportedMethods\<close> probes each entry by its internal name. Over a provider
  that knows neither \<^verbatim>\<open>RC4-MD5\<close> nor \<^verbatim>\<open>ChaCha\<close> the result has no \<^verbatim>\<open>rc4-md5\<close>,
  \<^verbatim>\<open>chacha20\<close> or \<^verbatim>\<open>chacha20-ietf\<close>: the internal names \<^verbatim>\<open>RC4-MD5\<close> and
  \<^verbatim>\<open>ChaCha\<close> do not contain the lower-case \<^verbatim>\<open>rc4\<close> and \<^verbatim>\<open>chacha20\<close> that
  \<^verbatim>\<open>isSupported\<close> looks for, although the user name \<^verbatim>\<open>rc4-md5\<close> does and the
  constructor builds the instance.
\<close>

theorem supportedMethods_omits_rc4:
  "supportedMethods (toy_provider False botan1_names) =
     Inr [''aes-128-cfb'', ''aes-128-ctr'', ''aes-192-cfb'', ''aes-192-ctr'', ''aes-256-cfb'',
          ''aes-256-ctr'', ''bf-cfb'', ''camellia-128-cfb'', ''camellia-192-cfb'',
          ''camellia-256-cfb'', ''cast5-cfb'', ''des-cfb'', ''idea-cfb'', ''rc2-cfb'',
          ''salsa20'', ''seed-cfb'', ''serpent-256-cfb'']
   \<and> isSupported (toy_provider False botan1_names) ''RC4-MD5'' = Inr False
   \<and> isSupported (toy_provider False botan1_names) ''rc4-md5'' = Inr True
   \<and> (\<exists>c. Cipher_new (toy_provider False botan1_names) ''rc4-md5'' toy_key toy_iv True
          = Inr c)"
proof (intro conjI)
  show "supportedMethods (toy_provider False botan1_names) =
     Inr [''aes-128-cfb'', ''aes-128-ctr'', ''aes-192-cfb'', ''aes-192-ctr'', ''aes-256-cfb'',
          ''aes-256-ctr'', ''bf-cfb'', ''camellia-128-cfb'', ''camellia-192-cfb'',
          ''camellia-256-cfb'', ''cast5-cfb'', ''des-cfb'', ''idea-cfb'', ''rc2-cfb'',
          ''salsa20'', ''seed-cfb'', ''serpent-256-cfb'']"
    by (simp add: supportedMethods_def cipherInfoMap_entries stream_info_def isSupported_def
        toy_provider_sel botan1_names_def contains_def string_find_def)
  show "isSupported (toy_provider False botan1_names) ''RC4-MD5'' = Inr False"
    by (simp add: isSupported_def toy_provider_sel botan1_names_def contains_def
        string_find_def)
  show "isSupported (toy_provider False botan1_names) ''rc4-md5'' = Inr True"
    by (simp add: isSupported_def toy_provider_sel contains_simps)
  show "\<exists>c. Cipher_new (toy_provider False botan1_names) ''rc4-md5'' toy_key toy_iv True
          = Inr c"
    by (simp add: Cipher_new_def map_at_stream_rows toy_provider_sel contains_simps)
qed

section \<open>Random IVs\<close>

lemma length_random_vec: "length (random_vec g n) = n"
  by (simp add: random_vec_def)

lemma length_randomIv:
  assumes "0 \<le> n" "n \<le> 2147483647"
  shows "int (length (randomIv g n)) = n"
proof (cases "n = 0")
  case True
  then show ?thesis by (simp add: randomIv_def)
next
  case False
  from assms have "n mod 2 ^ 64 = n" by simp
  then have "size_t_of_int n = nat n" by (simp add: size_t_of_int_def)
  with False assms show ?thesis by (simp add: randomIv_def length_random_vec)
qed

lemma random_vec_zero_rng: "random_vec zero_rng n = replicate n (CHR 0x00)"
  unfolding random_vec_def
  by (induction n) (simp_all add: zero_rng_def replicate_append_same)

text \<open>
  \<^bold>\<open>C8.\<close> \<^verbatim>\<open>randomIv(0)\<close> is empty; for a positive \<^verbatim>\<open>int\<close> \<open>n\<close>, \<^verbatim>\<open>randomIv(n)\<close>
  is the first \<open>n\<close> bytes of the generator; for a registered method,
  \<^verbatim>\<open>randomIv(method)\<close> is \<^verbatim>\<open>randomIv\<close> of the method's IV length and has that
  length.
\<close>

theorem randomIv_length:
  "randomIv g 0 = []
   \<and> (0 < n \<and> n \<le> 2147483647 \<longrightarrow>
        randomIv g n = random_vec g (nat n) \<and> int (length (randomIv g n)) = n)
   \<and> (map_at (cipherInfoMap b) m = Inr info \<longrightarrow>
        randomIv_method b g m = Inr (randomIv g (ivLen info))
        \<and> int (length (randomIv g (ivLen info))) = ivLen info)"
proof (intro conjI impI)
  show "randomIv g 0 = []" by (simp add: randomIv_def)
next
  assume n: "0 < n \<and> n \<le> 2147483647"
  then have "n mod 2 ^ 64 = n" by simp
  then have "size_t_of_int n = nat n" by (simp add: size_t_of_int_def)
  with n show "randomIv g n = random_vec g (nat n)" by (simp add: randomIv_def)
  from n show "int (length (randomIv g n)) = n" by (simp add: length_randomIv)
next
  assume m: "map_at (cipherInfoMap b) m = Inr info"
  then show "randomIv_method b g m = Inr (randomIv g (ivLen info))"
    by (simp add: randomIv_method_def)
  from m have "(m, info) \<in> set (cipherInfoMap b)" by (rule map_at_InrD)
  then have "ivLen info = 8 \<or> ivLen info = 12 \<or> ivLen info = 16" by (rule registry_ivLen)
  then show "int (length (randomIv g (ivLen info))) = ivLen info"
    by (auto simp: length_randomIv)
qed

theorem randomIv_length_witness:
  "(0::int) < 3 \<and> (3::int) \<le> 2147483647 \<and> randomIv zero_rng 3 = [CHR 0x00, CHR 0x00, CHR 0x00]
   \<and> map_at (cipherInfoMap True) ''chacha20-ietf'' = Inr (stream_info ''ChaCha'' 32 12)
   \<and> (\<exists>bs. randomIv_method True zero_rng ''chacha20-ietf'' = Inr bs \<and> length bs = 12)"
  using randomIv_length [of zero_rng 3 True "''chacha20-ietf''" "stream_info ''ChaCha'' 32 12"]
  by (simp add: map_at_stream_rows stream_info_def random_vec_def zero_rng_def upt_rec)

section \<open>Hashing and subkey derivation\<close>

lemma length_bytes_of_u32: "length (bytes_of_u32 w) = 4"
  by (simp add: bytes_of_u32_def)

lemma length_sha1_digest: "length (sha1_digest h) = 20"
  by (cases h) (simp add: length_bytes_of_u32)

lemma length_sha1: "length (sha1 m) = 20"
  by (simp add: sha1_def Let_def length_sha1_digest)

lemma length_hmac_sha1: "length (hmac_sha1 k m) = 20"
  by (simp add: hmac_sha1_def length_sha1)

lemma length_hkdf_expand_loop:
  "length (hkdf_expand_loop fuel prk label h counter remaining) = min remaining (20 * fuel)"
proof (induction fuel arbitrary: h counter remaining)
  case 0
  show ?case by simp
next
  case (Suc fuel)
  show ?case
    by (auto simp add: Let_def length_hmac_sha1 Suc.IH min_def)
qed

lemma length_hkdf_expand:
  "n \<le> 5100 \<Longrightarrow> length (hkdf_expand prk label n) = n"
  by (simp add: hkdf_expand_def length_hkdf_expand_loop)

text \<open>
  \<^bold>\<open>C9.\<close> On an instance constructed for an AEAD method, \<^verbatim>\<open>deriveSubkey\<close> draws a
  salt of the descriptor's salt length from the generator and returns HKDF over
  HMAC-SHA-1 of the instance's key with that salt and the 9-byte label
  \<^verbatim>\<open>ss-subkey\<close>, as many bytes as the descriptor's key length; the salt is not part of
  the result.
\<close>

theorem deriveSubkey_hkdf:
  assumes "Cipher_new P m k i e = Inr c" and "type (cipherInfo c) = AEAD"
  shows "kdf c = Some (HKDF (HMAC SHA_160))
     \<and> deriveSubkey g c =
         Inr (hkdf_expand (hkdf_extract (randomIv g (saltLen (cipherInfo c))) k) ''ss-subkey''
                (nat (keyLen (cipherInfo c))))
     \<and> int (length (randomIv g (saltLen (cipherInfo c)))) = saltLen (cipherInfo c)
     \<and> (\<exists>sk. deriveSubkey g c = Inr sk \<and> int (length sk) = keyLen (cipherInfo c))
     \<and> kdfLabel = ''ss-subkey'' \<and> length kdfLabel = 9"
  using assms(1)
proof (cases rule: Cipher_new_cases)
  case (RC4 info r)
  from RC4(1) have "(m, info) \<in> set (cipherInfoMap (USE_BOTAN2 P))" by (rule map_at_InrD)
  with assms(2) RC4(4) have "m = ''aes-256-gcm''" by (auto dest: registry_aead)
  with RC4(2) show ?thesis by (simp add: contains_simps)
next
  case (ChaCha info ch)
  from ChaCha(1) have "(m, info) \<in> set (cipherInfoMap (USE_BOTAN2 P))" by (rule map_at_InrD)
  with assms(2) ChaCha(6) have "m = ''aes-256-gcm''" by (auto dest: registry_aead)
  with ChaCha(4) show ?thesis by (simp add: contains_simps)
next
  case (Pipe info f)
  from Pipe(1) have "(m, info) \<in> set (cipherInfoMap (USE_BOTAN2 P))" by (rule map_at_InrD)
  with assms(2) Pipe(5)
  have info: "USE_BOTAN2 P" "type info = AEAD" "keyLen info = 32" "saltLen info = 32"
    by (auto dest: registry_aead)
  have sz: "size_t_of_int 32 = 32" by (simp add: size_t_of_int_def)
  have salt: "int (length (randomIv g 32)) = 32" by (simp add: length_randomIv)
  show ?thesis
    using info salt
    by (simp add: Pipe(5) deriveSubkey_def sz kdfLabel_def length_hkdf_expand)
qed

theorem deriveSubkey_hkdf_witness:
  "Cipher_new (toy_provider True toy_known) ''aes-256-gcm'' toy_key toy_iv True
     = Inr toy_aead_cipher
   \<and> type (cipherInfo toy_aead_cipher) = AEAD
   \<and> deriveSubkey zero_rng toy_aead_cipher
       = Inr (hkdf_expand (hkdf_extract (replicate 32 (CHR 0x00)) toy_key) ''ss-subkey'' 32)
   \<and> length (hkdf_expand (hkdf_extract (replicate 32 (CHR 0x00)) toy_key) ''ss-subkey'' 32)
       = 32"
proof -
  have new: "Cipher_new (toy_provider True toy_known) ''aes-256-gcm'' toy_key toy_iv True
      = Inr toy_aead_cipher"
    unfolding toy_aead_cipher_def by (rule toy_new(4))
  have aead: "type (cipherInfo toy_aead_cipher) = AEAD"
    and lens: "saltLen (cipherInfo toy_aead_cipher) = 32" "keyLen (cipherInfo toy_aead_cipher) = 32"
    by (simp_all add: toy_aead_cipher_def)
  have r: "randomIv zero_rng 32 = replicate 32 (CHR 0x00)"
    by (simp add: randomIv_def size_t_of_int_def random_vec_zero_rng)
  note main = deriveSubkey_hkdf [OF new aead, of zero_rng]
  from main [THEN conjunct2, THEN conjunct1]
  have eq: "deriveSubkey zero_rng toy_aead_cipher
       = Inr (hkdf_expand (hkdf_extract (replicate 32 (CHR 0x00)) toy_key) ''ss-subkey'' 32)"
    by (simp add: r lens)
  from main [THEN conjunct2, THEN conjunct2, THEN conjunct2, THEN conjunct1]
  obtain sk where "deriveSubkey zero_rng toy_aead_cipher = Inr sk" "int (length sk) = 32"
    by (auto simp: lens)
  with eq have "length (hkdf_expand (hkdf_extract (replicate 32 (CHR 0x00)) toy_key)
      ''ss-subkey'' 32) = 32"
    by simp
  with new aead eq show ?thesis by simp
qed

section \<open>The truncated HMAC-SHA-1\<close>

text \<open>
  Evaluation of SHA-1 on concrete blocks: the rounds are unfolded on numerals, twenty at
  a time.
\<close>

lemma sha1_rounds_unfold:
  "sha1_rounds n t (ws, s) =
     (if n = 0 then (ws, s)
      else sha1_rounds (n - 1) (t + 1)
             (tl ws @ [rotl 1 (ws ! 13 XOR ws ! 8 XOR ws ! 2 XOR ws ! 0)],
              sha1_round t (hd ws) s))"
  by (cases n) simp_all

lemma sha1_rounds_add:
  "sha1_rounds (m + n) t x = sha1_rounds n (t + m) (sha1_rounds m t x)"
proof (induction m arbitrary: t x)
  case 0
  show ?case by (cases x) simp
next
  case (Suc m)
  show ?case by (cases x) (simp add: Suc.IH)
qed

lemma sha1_rounds_80:
  "sha1_rounds 80 0 x =
     sha1_rounds 20 60 (sha1_rounds 20 40 (sha1_rounds 20 20 (sha1_rounds 20 0 x)))"
proof -
  have "sha1_rounds (20 + (20 + (20 + 20))) 0 x =
     sha1_rounds 20 60 (sha1_rounds 20 40 (sha1_rounds 20 20 (sha1_rounds 20 0 x)))"
    by (simp only: sha1_rounds_add) simp
  then show ?thesis by simp
qed

lemma replicate_unfold:
  "replicate n x = (if n = 0 then [] else x # replicate (n - 1) x)"
  by (cases n) simp_all

lemma sha1_blocks_2:
  "sha1_blocks 2 h bs = sha1_compress (sha1_compress h (take 64 bs)) (take 64 (drop 64 bs))"
  by (simp add: numeral_2_eq_2)

text \<open>
  The test vector: key \<^verbatim>\<open>key\<close>, message \<^verbatim>\<open>The quick brown fox jumps over the lazy dog\<close>.
  The inner hash runs over the key block xor \<open>0x36\<close> followed by the message, the outer
  hash over the key block xor \<open>0x5C\<close> followed by the inner digest; each is two blocks.
\<close>

lemma vec_ipad:
  "map (xor_char (CHR 0x36)) (hmac_key ''key'') =
     [CHR 0x5D, CHR 0x53, CHR 0x4F, CHR 0x36, CHR 0x36, CHR 0x36, CHR 0x36, CHR 0x36,
      CHR 0x36, CHR 0x36, CHR 0x36, CHR 0x36, CHR 0x36, CHR 0x36, CHR 0x36, CHR 0x36,
      CHR 0x36, CHR 0x36, CHR 0x36, CHR 0x36, CHR 0x36, CHR 0x36, CHR 0x36, CHR 0x36,
      CHR 0x36, CHR 0x36, CHR 0x36, CHR 0x36, CHR 0x36, CHR 0x36, CHR 0x36, CHR 0x36,
      CHR 0x36, CHR 0x36, CHR 0x36, CHR 0x36, CHR 0x36, CHR 0x36, CHR 0x36, CHR 0x36,
      CHR 0x36, CHR 0x36, CHR 0x36, CHR 0x36, CHR 0x36, CHR 0x36, CHR 0x36, CHR 0x36,
      CHR 0x36, CHR 0x36, CHR 0x36, CHR 0x36, CHR 0x36, CHR 0x36, CHR 0x36, CHR 0x36,
      CHR 0x36, CHR 0x36, CHR 0x36, CHR 0x36, CHR 0x36, CHR 0x36, CHR 0x36, CHR 0x36]"
  by (simp add: hmac_key_def xor_char_def char_of_def bit_0 replicate_unfold)

lemma vec_opad:
  "map (xor_char (CHR 0x5C)) (hmac_key ''key'') =
     [CHR 0x37, CHR 0x39, CHR 0x25, CHR 0x5C, CHR 0x5C, CHR 0x5C, CHR 0x5C, CHR 0x5C,
      CHR 0x5C, CHR 0x5C, CHR 0x5C, CHR 0x5C, CHR 0x5C, CHR 0x5C, CHR 0x5C, CHR 0x5C,
      CHR 0x5C, CHR 0x5C, CHR 0x5C, CHR 0x5C, CHR 0x5C, CHR 0x5C, CHR 0x5C, CHR 0x5C,
      CHR 0x5C, CHR 0x5C, CHR 0x5C, CHR 0x5C, CHR 0x5C, CHR 0x5C, CHR 0x5C, CHR 0x5C,
      CHR 0x5C, CHR 0x5C, CHR 0x5C, CHR 0x5C, CHR 0x5C, CHR 0x5C, CHR 0x5C, CHR 0x5C,
      CHR 0x5C, CHR 0x5C, CHR 0x5C, CHR 0x5C, CHR 0x5C, CHR 0x5C, CHR 0x5C, CHR 0x5C,
      CHR 0x5C, CHR 0x5C, CHR 0x5C, CHR 0x5C, CHR 0x5C, CHR 0x5C, CHR 0x5C, CHR 0x5C,
      CHR 0x5C, CHR 0x5C, CHR 0x5C, CHR 0x5C, CHR 0x5C, CHR 0x5C, CHR 0x5C, CHR 0x5C]"
  by (simp add: hmac_key_def xor_char_def char_of_def bit_0 replicate_unfold)

lemma vec_inner_pad:
  "sha1_pad
     [CHR 0x5D, CHR 0x53, CHR 0x4F, CHR 0x36, CHR 0x36, CHR 0x36, CHR 0x36, CHR 0x36,
      CHR 0x36, CHR 0x36, CHR 0x36, CHR 0x36, CHR 0x36, CHR 0x36, CHR 0x36, CHR 0x36,
      CHR 0x36, CHR 0x36, CHR 0x36, CHR 0x36, CHR 0x36, CHR 0x36, CHR 0x36, CHR 0x36,
      CHR 0x36, CHR 0x36, CHR 0x36, CHR 0x36, CHR 0x36, CHR 0x36, CHR 0x36, CHR 0x36,
      CHR 0x36, CHR 0x36, CHR 0x36, CHR 0x36, CHR 0x36, CHR 0x36, CHR 0x36, CHR 0x36,
      CHR 0x36, CHR 0x36, CHR 0x36, CHR 0x36, CHR 0x36, CHR 0x36, CHR 0x36, CHR 0x36,
      CHR 0x36, CHR 0x36, CHR 0x36, CHR 0x36, CHR 0x36, CHR 0x36, CHR 0x36, CHR 0x36,
      CHR 0x36, CHR 0x36, CHR 0x36, CHR 0x36, CHR 0x36, CHR 0x36, CHR 0x36, CHR 0x36,
      CHR 0x54, CHR 0x68, CHR 0x65, CHR 0x20, CHR 0x71, CHR 0x75, CHR 0x69, CHR 0x63,
      CHR 0x6B, CHR 0x20, CHR 0x62, CHR 0x72, CHR 0x6F, CHR 0x77, CHR 0x6E, CHR 0x20,
      CHR 0x66, CHR 0x6F, CHR 0x78, CHR 0x20, CHR 0x6A, CHR 0x75, CHR 0x6D, CHR 0x70,
      CHR 0x73, CHR 0x20, CHR 0x6F, CHR 0x76, CHR 0x65, CHR 0x72, CHR 0x20, CHR 0x74,
      CHR 0x68, CHR 0x65, CHR 0x20, CHR 0x6C, CHR 0x61, CHR 0x7A, CHR 0x79, CHR 0x20,
      CHR 0x64, CHR 0x6F, CHR 0x67] =
     [CHR 0x5D, CHR 0x53, CHR 0x4F, CHR 0x36, CHR 0x36, CHR 0x36, CHR 0x36, CHR 0x36,
      CHR 0x36, CHR 0x36, CHR 0x36, CHR 0x36, CHR 0x36, CHR 0x36, CHR 0x36, CHR 0x36,
      CHR 0x36, CHR 0x36, CHR 0x36, CHR 0x36, CHR 0x36, CHR 0x36, CHR 0x36, CHR 0x36,
      CHR 0x36, CHR 0x36, CHR 0x36, CHR 0x36, CHR 0x36, CHR 0x36, CHR 0x36, CHR 0x36,
      CHR 0x36, CHR 0x36, CHR 0x36, CHR 0x36, CHR 0x36, CHR 0x36, CHR 0x36, CHR 0x36,
      CHR 0x36, CHR 0x36, CHR 0x36, CHR 0x36, CHR 0x36, CHR 0x36, CHR 0x36, CHR 0x36,
      CHR 0x36, CHR 0x36, CHR 0x36, CHR 0x36, CHR 0x36, CHR 0x36, CHR 0x36, CHR 0x36,
      CHR 0x36, CHR 0x36, CHR 0x36, CHR 0x36, CHR 0x36, CHR 0x36, CHR 0x36, CHR 0x36,
      CHR 0x54, CHR 0x68, CHR 0x65, CHR 0x20, CHR 0x71, CHR 0x75, CHR 0x69, CHR 0x63,
      CHR 0x6B, CHR 0x20, CHR 0x62, CHR 0x72, CHR 0x6F, CHR 0x77, CHR 0x6E, CHR 0x20,
      CHR 0x66, CHR 0x6F, CHR 0x78, CHR 0x20, CHR 0x6A, CHR 0x75, CHR 0x6D, CHR 0x70,
      CHR 0x73, CHR 0x20, CHR 0x6F, CHR 0x76, CHR 0x65, CHR 0x72, CHR 0x20, CHR 0x74,
      CHR 0x68, CHR 0x65, CHR 0x20, CHR 0x6C, CHR 0x61, CHR 0x7A, CHR 0x79, CHR 0x20,
      CHR 0x64, CHR 0x6F, CHR 0x67, CHR 0x80, CHR 0x00, CHR 0x00, CHR 0x00, CHR 0x00,
      CHR 0x00, CHR 0x00, CHR 0x00, CHR 0x00, CHR 0x00, CHR 0x00, CHR 0x00, CHR 0x00,
      CHR 0x00, CHR 0x00, CHR 0x00, CHR 0x00, CHR 0x00, CHR 0x00, CHR 0x03, CHR 0x58]"
  by (simp add: sha1_pad_def bytes_of_u64_def char_of_def bit_0 replicate_unfold)

lemma vec_inner_words1:
  "sha1_words
     [CHR 0x5D, CHR 0x53, CHR 0x4F, CHR 0x36, CHR 0x36, CHR 0x36, CHR 0x36, CHR 0x36,
      CHR 0x36, CHR 0x36, CHR 0x36, CHR 0x36, CHR 0x36, CHR 0x36, CHR 0x36, CHR 0x36,
      CHR 0x36, CHR 0x36, CHR 0x36, CHR 0x36, CHR 0x36, CHR 0x36, CHR 0x36, CHR 0x36,
      CHR 0x36, CHR 0x36, CHR 0x36, CHR 0x36, CHR 0x36, CHR 0x36, CHR 0x36, CHR 0x36,
      CHR 0x36, CHR 0x36, CHR 0x36, CHR 0x36, CHR 0x36, CHR 0x36, CHR 0x36, CHR 0x36,
      CHR 0x36, CHR 0x36, CHR 0x36, CHR 0x36, CHR 0x36, CHR 0x36, CHR 0x36, CHR 0x36,
      CHR 0x36, CHR 0x36, CHR 0x36, CHR 0x36, CHR 0x36, CHR 0x36, CHR 0x36, CHR 0x36,
      CHR 0x36, CHR 0x36, CHR 0x36, CHR 0x36, CHR 0x36, CHR 0x36, CHR 0x36, CHR 0x36] =
     [1565740854, 909522486, 909522486, 909522486, 909522486, 909522486, 909522486,
      909522486, 909522486, 909522486, 909522486, 909522486, 909522486, 909522486,
      909522486, 909522486]"
  by (simp add: sha1_words_def be32_def upt_rec)

lemma vec_inner_block1_rounds1:
  "sha1_rounds 20 0
    ([1565740854, 909522486, 909522486, 909522486, 909522486, 909522486, 909522486,
      909522486, 909522486, 909522486, 909522486, 909522486, 909522486, 909522486,
      909522486, 909522486],
     (1732584193, 4023233417, 2562383102, 271733878, 3285377520)) =
    ([1819044972, 1819044972, 4020206775, 3031741620, 1967996121, 3745446255, 1768515945,
      1768515945, 1722100231, 168430090, 3423970256, 3360641291, 1394313639, 2779096485,
      2593433629, 802032031],
     (3561973771, 3783691614, 275585069, 2963794547, 56919024))"
  by (simp add: sha1_rounds_unfold sha1_f_def sha1_k_def rotl_def)

lemma vec_inner_block1_rounds2:
  "sha1_rounds 20 20
    ([1819044972, 1819044972, 4020206775, 3031741620, 1967996121, 3745446255, 1768515945,
      1768515945, 1722100231, 168430090, 3423970256, 3360641291, 1394313639, 2779096485,
      2593433629, 802032031],
     (3561973771, 3783691614, 275585069, 2963794547, 56919024)) =
    ([3211154195, 3284386755, 2721668719, 3885396959, 3509119437, 3789677025, 353835989,
      4044141135, 772875921, 3112101976, 2425157022, 3985330846, 927323722, 1263225675,
      1809030197, 2208155396],
     (1649520179, 1855205882, 11323739, 1770204011, 628313348))"
  by (simp add: sha1_rounds_unfold sha1_f_def sha1_k_def rotl_def)

lemma vec_inner_block1_rounds3:
  "sha1_rounds 20 40
    ([3211154195, 3284386755, 2721668719, 3885396959, 3509119437, 3789677025, 353835989,
      4044141135, 772875921, 3112101976, 2425157022, 3985330846, 927323722, 1263225675,
      1809030197, 2208155396],
     (1649520179, 1855205882, 11323739, 1770204011, 628313348)) =
    ([1024940386, 927868203, 3463660882, 3992029411, 4088557264, 4008636142, 343097999,
      3309103546, 517995495, 3621246935, 556655395, 981760455, 685565046, 733810156,
      2814562485, 3666105983],
     (2291332272, 2774862388, 2264218512, 1002901153, 871482948))"
  by (simp add: sha1_rounds_unfold sha1_f_def sha1_k_def rotl_def)

lemma vec_inner_block1_rounds4:
  "sha1_rounds 20 60
    ([1024940386, 927868203, 3463660882, 3992029411, 4088557264, 4008636142, 343097999,
      3309103546, 517995495, 3621246935, 556655395, 981760455, 685565046, 733810156,
      2814562485, 3666105983],
     (2291332272, 2774862388, 2264218512, 1002901153, 871482948)) =
    ([881933049, 427585035, 2357722445, 4194084311, 1426539889, 1761741840, 4189666942,
      1579633730, 2769945685, 603461580, 4074728347, 2792310097, 3964106478, 1263225675,
      3475830999, 2154006457],
     (4033843279, 1915082018, 2871820632, 820031788, 2495123402))"
  by (simp add: sha1_rounds_unfold sha1_f_def sha1_k_def rotl_def)

lemma vec_inner_compress1:
  "sha1_compress sha1_init
     [CHR 0x5D, CHR 0x53, CHR 0x4F, CHR 0x36, CHR 0x36, CHR 0x36, CHR 0x36, CHR 0x36,
      CHR 0x36, CHR 0x36, CHR 0x36, CHR 0x36, CHR 0x36, CHR 0x36, CHR 0x36, CHR 0x36,
      CHR 0x36, CHR 0x36, CHR 0x36, CHR 0x36, CHR 0x36, CHR 0x36, CHR 0x36, CHR 0x36,
      CHR 0x36, CHR 0x36, CHR 0x36, CHR 0x36, CHR 0x36, CHR 0x36, CHR 0x36, CHR 0x36,
      CHR 0x36, CHR 0x36, CHR 0x36, CHR 0x36, CHR 0x36, CHR 0x36, CHR 0x36, CHR 0x36,
      CHR 0x36, CHR 0x36, CHR 0x36, CHR 0x36, CHR 0x36, CHR 0x36, CHR 0x36, CHR 0x36,
      CHR 0x36, CHR 0x36, CHR 0x36, CHR 0x36, CHR 0x36, CHR 0x36, CHR 0x36, CHR 0x36,
      CHR 0x36, CHR 0x36, CHR 0x36, CHR 0x36, CHR 0x36, CHR 0x36, CHR 0x36, CHR 0x36] =
     (1471460176, 1643348139, 1139236438, 1091765666, 1485533626)"
  by (simp add: sha1_compress_def sha1_rounds_80 sha1_init_def vec_inner_words1
      vec_inner_block1_rounds1 vec_inner_block1_rounds2 vec_inner_block1_rounds3 vec_inner_block1_rounds4)

lemma vec_inner_words2:
  "sha1_words
     [CHR 0x54, CHR 0x68, CHR 0x65, CHR 0x20, CHR 0x71, CHR 0x75, CHR 0x69, CHR 0x63,
      CHR 0x6B, CHR 0x20, CHR 0x62, CHR 0x72, CHR 0x6F, CHR 0x77, CHR 0x6E, CHR 0x20,
      CHR 0x66, CHR 0x6F, CHR 0x78, CHR 0x20, CHR 0x6A, CHR 0x75, CHR 0x6D, CHR 0x70,
      CHR 0x73, CHR 0x20, CHR 0x6F, CHR 0x76, CHR 0x65, CHR 0x72, CHR 0x20, CHR 0x74,
      CHR 0x68, CHR 0x65, CHR 0x20, CHR 0x6C, CHR 0x61, CHR 0x7A, CHR 0x79, CHR 0x20,
      CHR 0x64, CHR 0x6F, CHR 0x67, CHR 0x80, CHR 0x00, CHR 0x00, CHR 0x00, CHR 0x00,
      CHR 0x00, CHR 0x00, CHR 0x00, CHR 0x00, CHR 0x00, CHR 0x00, CHR 0x00, CHR 0x00,
      CHR 0x00, CHR 0x00, CHR 0x00, CHR 0x00, CHR 0x00, CHR 0x00, CHR 0x03, CHR 0x58] =
     [1416127776, 1903520099, 1797284466, 1870097952, 1718581280, 1786080624, 1931505526,
      1701978228, 1751457900, 1635416352, 1685022592, 0, 0, 0, 0, 856]"
  by (simp add: sha1_words_def be32_def upt_rec)

lemma vec_inner_block2_rounds1:
  "sha1_rounds 20 0
    ([1416127776, 1903520099, 1797284466, 1870097952, 1718581280, 1786080624, 1931505526,
      1701978228, 1751457900, 1635416352, 1685022592, 0, 0, 0, 0, 856],
     (1471460176, 1643348139, 1139236438, 1091765666, 1485533626)) =
    ([3615479585, 3129958433, 2615913094, 2800687707, 834589538, 146955968, 562102686,
      3457978998, 3212514243, 907855311, 4149931289, 3469339661, 4151397258, 2947656332,
      3572469581, 2862892809],
     (2684986170, 3599970585, 2770116417, 2976301054, 3410021550))"
  by (simp add: sha1_rounds_unfold sha1_f_def sha1_k_def rotl_def)

lemma vec_inner_block2_rounds2:
  "sha1_rounds 20 20
    ([3615479585, 3129958433, 2615913094, 2800687707, 834589538, 146955968, 562102686,
      3457978998, 3212514243, 907855311, 4149931289, 3469339661, 4151397258, 2947656332,
      3572469581, 2862892809],
     (2684986170, 3599970585, 2770116417, 2976301054, 3410021550)) =
    ([886173966, 208765863, 4115644219, 3438003068, 4191938907, 3782864401, 1194296332,
      1344527022, 3966613425, 2627195996, 2457650705, 3993543786, 1699489404, 2099386104,
      3846368514, 324566001],
     (3086043860, 4239308102, 3056795039, 4268218625, 1302688037))"
  by (simp add: sha1_rounds_unfold sha1_f_def sha1_k_def rotl_def)

lemma vec_inner_block2_rounds3:
  "sha1_rounds 20 40
    ([886173966, 208765863, 4115644219, 3438003068, 4191938907, 3782864401, 1194296332,
      1344527022, 3966613425, 2627195996, 2457650705, 3993543786, 1699489404, 2099386104,
      3846368514, 324566001],
     (3086043860, 4239308102, 3056795039, 4268218625, 1302688037)) =
    ([1380806721, 2922637965, 350544515, 457312901, 3808594858, 701154172, 3995499475,
      1756704141, 4145213575, 1558182062, 1902246376, 455927281, 171898362, 3700346051,
      2018276037, 294992392],
     (186897378, 1788619770, 1017437504, 1098263464, 3748194291))"
  by (simp add: sha1_rounds_unfold sha1_f_def sha1_k_def rotl_def)

lemma vec_inner_block2_rounds4:
  "sha1_rounds 20 60
    ([1380806721, 2922637965, 350544515, 457312901, 3808594858, 701154172, 3995499475,
      1756704141, 4145213575, 1558182062, 1902246376, 455927281, 171898362, 3700346051,
      2018276037, 294992392],
     (186897378, 1788619770, 1017437504, 1098263464, 3748194291)) =
    ([1237164680, 1739124547, 231487281, 3632569158, 2002875968, 3556244818, 469599631,
      2931522294, 3497112011, 1654470671, 44090396, 1967753348, 3278146977, 706354944,
      307885088, 3688100923],
     (3075039913, 3022468733, 1585954669, 4057948407, 3142639300))"
  by (simp add: sha1_rounds_unfold sha1_f_def sha1_k_def rotl_def)

lemma vec_inner_compress2:
  "sha1_compress (1471460176, 1643348139, 1139236438, 1091765666, 1485533626)
     [CHR 0x54, CHR 0x68, CHR 0x65, CHR 0x20, CHR 0x71, CHR 0x75, CHR 0x69, CHR 0x63,
      CHR 0x6B, CHR 0x20, CHR 0x62, CHR 0x72, CHR 0x6F, CHR 0x77, CHR 0x6E, CHR 0x20,
      CHR 0x66, CHR 0x6F, CHR 0x78, CHR 0x20, CHR 0x6A, CHR 0x75, CHR 0x6D, CHR 0x70,
      CHR 0x73, CHR 0x20, CHR 0x6F, CHR 0x76, CHR 0x65, CHR 0x72, CHR 0x20, CHR 0x74,
      CHR 0x68, CHR 0x65, CHR 0x20, CHR 0x6C, CHR 0x61, CHR 0x7A, CHR 0x79, CHR 0x20,
      CHR 0x64, CHR 0x6F, CHR 0x67, CHR 0x80, CHR 0x00, CHR 0x00, CHR 0x00, CHR 0x00,
      CHR 0x00, CHR 0x00, CHR 0x00, CHR 0x00, CHR 0x00, CHR 0x00, CHR 0x00, CHR 0x00,
      CHR 0x00, CHR 0x00, CHR 0x00, CHR 0x00, CHR 0x00, CHR 0x00, CHR 0x03, CHR 0x58] =
     (251532793, 370849576, 2725191107, 854746777, 333205630)"
  by (simp add: sha1_compress_def sha1_rounds_80 sha1_init_def vec_inner_words2
      vec_inner_block2_rounds1 vec_inner_block2_rounds2 vec_inner_block2_rounds3 vec_inner_block2_rounds4)

lemma vec_inner_sha1:
  "sha1
     [CHR 0x5D, CHR 0x53, CHR 0x4F, CHR 0x36, CHR 0x36, CHR 0x36, CHR 0x36, CHR 0x36,
      CHR 0x36, CHR 0x36, CHR 0x36, CHR 0x36, CHR 0x36, CHR 0x36, CHR 0x36, CHR 0x36,
      CHR 0x36, CHR 0x36, CHR 0x36, CHR 0x36, CHR 0x36, CHR 0x36, CHR 0x36, CHR 0x36,
      CHR 0x36, CHR 0x36, CHR 0x36, CHR 0x36, CHR 0x36, CHR 0x36, CHR 0x36, CHR 0x36,
      CHR 0x36, CHR 0x36, CHR 0x36, CHR 0x36, CHR 0x36, CHR 0x36, CHR 0x36, CHR 0x36,
      CHR 0x36, CHR 0x36, CHR 0x36, CHR 0x36, CHR 0x36, CHR 0x36, CHR 0x36, CHR 0x36,
      CHR 0x36, CHR 0x36, CHR 0x36, CHR 0x36, CHR 0x36, CHR 0x36, CHR 0x36, CHR 0x36,
      CHR 0x36, CHR 0x36, CHR 0x36, CHR 0x36, CHR 0x36, CHR 0x36, CHR 0x36, CHR 0x36,
      CHR 0x54, CHR 0x68, CHR 0x65, CHR 0x20, CHR 0x71, CHR 0x75, CHR 0x69, CHR 0x63,
      CHR 0x6B, CHR 0x20, CHR 0x62, CHR 0x72, CHR 0x6F, CHR 0x77, CHR 0x6E, CHR 0x20,
      CHR 0x66, CHR 0x6F, CHR 0x78, CHR 0x20, CHR 0x6A, CHR 0x75, CHR 0x6D, CHR 0x70,
      CHR 0x73, CHR 0x20, CHR 0x6F, CHR 0x76, CHR 0x65, CHR 0x72, CHR 0x20, CHR 0x74,
      CHR 0x68, CHR 0x65, CHR 0x20, CHR 0x6C, CHR 0x61, CHR 0x7A, CHR 0x79, CHR 0x20,
      CHR 0x64, CHR 0x6F, CHR 0x67] =
     [CHR 0x0E, CHR 0xFE, CHR 0x15, CHR 0xF9, CHR 0x16, CHR 0x1A, CHR 0xB7, CHR 0x28,
      CHR 0xA2, CHR 0x6F, CHR 0x1D, CHR 0xC3, CHR 0x32, CHR 0xF2, CHR 0x66, CHR 0x99,
      CHR 0x13, CHR 0xDC, CHR 0x50, CHR 0x7E]"
  by (simp add: sha1_def Let_def vec_inner_pad sha1_blocks_2 vec_inner_compress1 vec_inner_compress2
      bytes_of_u32_def char_of_def bit_0)

lemma vec_outer_pad:
  "sha1_pad
     [CHR 0x37, CHR 0x39, CHR 0x25, CHR 0x5C, CHR 0x5C, CHR 0x5C, CHR 0x5C, CHR 0x5C,
      CHR 0x5C, CHR 0x5C, CHR 0x5C, CHR 0x5C, CHR 0x5C, CHR 0x5C, CHR 0x5C, CHR 0x5C,
      CHR 0x5C, CHR 0x5C, CHR 0x5C, CHR 0x5C, CHR 0x5C, CHR 0x5C, CHR 0x5C, CHR 0x5C,
      CHR 0x5C, CHR 0x5C, CHR 0x5C, CHR 0x5C, CHR 0x5C, CHR 0x5C, CHR 0x5C, CHR 0x5C,
      CHR 0x5C, CHR 0x5C, CHR 0x5C, CHR 0x5C, CHR 0x5C, CHR 0x5C, CHR 0x5C, CHR 0x5C,
      CHR 0x5C, CHR 0x5C, CHR 0x5C, CHR 0x5C, CHR 0x5C, CHR 0x5C, CHR 0x5C, CHR 0x5C,
      CHR 0x5C, CHR 0x5C, CHR 0x5C, CHR 0x5C, CHR 0x5C, CHR 0x5C, CHR 0x5C, CHR 0x5C,
      CHR 0x5C, CHR 0x5C, CHR 0x5C, CHR 0x5C, CHR 0x5C, CHR 0x5C, CHR 0x5C, CHR 0x5C,
      CHR 0x0E, CHR 0xFE, CHR 0x15, CHR 0xF9, CHR 0x16, CHR 0x1A, CHR 0xB7, CHR 0x28,
      CHR 0xA2, CHR 0x6F, CHR 0x1D, CHR 0xC3, CHR 0x32, CHR 0xF2, CHR 0x66, CHR 0x99,
      CHR 0x13, CHR 0xDC, CHR 0x50, CHR 0x7E] =
     [CHR 0x37, CHR 0x39, CHR 0x25, CHR 0x5C, CHR 0x5C, CHR 0x5C, CHR 0x5C, CHR 0x5C,
      CHR 0x5C, CHR 0x5C, CHR 0x5C, CHR 0x5C, CHR 0x5C, CHR 0x5C, CHR 0x5C, CHR 0x5C,
      CHR 0x5C, CHR 0x5C, CHR 0x5C, CHR 0x5C, CHR 0x5C, CHR 0x5C, CHR 0x5C, CHR 0x5C,
      CHR 0x5C, CHR 0x5C, CHR 0x5C, CHR 0x5C, CHR 0x5C, CHR 0x5C, CHR 0x5C, CHR 0x5C,
      CHR 0x5C, CHR 0x5C, CHR 0x5C, CHR 0x5C, CHR 0x5C, CHR 0x5C, CHR 0x5C, CHR 0x5C,
      CHR 0x5C, CHR 0x5C, CHR 0x5C, CHR 0x5C, CHR 0x5C, CHR 0x5C, CHR 0x5C, CHR 0x5C,
      CHR 0x5C, CHR 0x5C, CHR 0x5C, CHR 0x5C, CHR 0x5C, CHR 0x5C, CHR 0x5C, CHR 0x5C,
      CHR 0x5C, CHR 0x5C, CHR 0x5C, CHR 0x5C, CHR 0x5C, CHR 0x5C, CHR 0x5C, CHR 0x5C,
      CHR 0x0E, CHR 0xFE, CHR 0x15, CHR 0xF9, CHR 0x16, CHR 0x1A, CHR 0xB7, CHR 0x28,
      CHR 0xA2, CHR 0x6F, CHR 0x1D, CHR 0xC3, CHR 0x32, CHR 0xF2, CHR 0x66, CHR 0x99,
      CHR 0x13, CHR 0xDC, CHR 0x50, CHR 0x7E, CHR 0x80, CHR 0x00, CHR 0x00, CHR 0x00,
      CHR 0x00, CHR 0x00, CHR 0x00, CHR 0x00, CHR 0x00, CHR 0x00, CHR 0x00, CHR 0x00,
      CHR 0x00, CHR 0x00, CHR 0x00, CHR 0x00, CHR 0x00, CHR 0x00, CHR 0x00, CHR 0x00,
      CHR 0x00, CHR 0x00, CHR 0x00, CHR 0x00, CHR 0x00, CHR 0x00, CHR 0x00, CHR 0x00,
      CHR 0x00, CHR 0x00, CHR 0x00, CHR 0x00, CHR 0x00, CHR 0x00, CHR 0x00, CHR 0x00,
      CHR 0x00, CHR 0x00, CHR 0x00, CHR 0x00, CHR 0x00, CHR 0x00, CHR 0x02, CHR 0xA0]"
  by (simp add: sha1_pad_def bytes_of_u64_def char_of_def bit_0 replicate_unfold)

lemma vec_outer_words1:
  "sha1_words
     [CHR 0x37, CHR 0x39, CHR 0x25, CHR 0x5C, CHR 0x5C, CHR 0x5C, CHR 0x5C, CHR 0x5C,
      CHR 0x5C, CHR 0x5C, CHR 0x5C, CHR 0x5C, CHR 0x5C, CHR 0x5C, CHR 0x5C, CHR 0x5C,
      CHR 0x5C, CHR 0x5C, CHR 0x5C, CHR 0x5C, CHR 0x5C, CHR 0x5C, CHR 0x5C, CHR 0x5C,
      CHR 0x5C, CHR 0x5C, CHR 0x5C, CHR 0x5C, CHR 0x5C, CHR 0x5C, CHR 0x5C, CHR 0x5C,
      CHR 0x5C, CHR 0x5C, CHR 0x5C, CHR 0x5C, CHR 0x5C, CHR 0x5C, CHR 0x5C, CHR 0x5C,
      CHR 0x5C, CHR 0x5C, CHR 0x5C, CHR 0x5C, CHR 0x5C, CHR 0x5C, CHR 0x5C, CHR 0x5C,
      CHR 0x5C, CHR 0x5C, CHR 0x5C, CHR 0x5C, CHR 0x5C, CHR 0x5C, CHR 0x5C, CHR 0x5C,
      CHR 0x5C, CHR 0x5C, CHR 0x5C, CHR 0x5C, CHR 0x5C, CHR 0x5C, CHR 0x5C, CHR 0x5C] =
     [926491996, 1549556828, 1549556828, 1549556828, 1549556828, 1549556828, 1549556828,
      1549556828, 1549556828, 1549556828, 1549556828, 1549556828, 1549556828, 1549556828,
      1549556828, 1549556828]"
  by (simp add: sha1_words_def be32_def upt_rec)

lemma vec_outer_block1_rounds1:
  "sha1_rounds 20 0
    ([926491996, 1549556828, 1549556828, 1549556828, 1549556828, 1549556828, 1549556828,
      1549556828, 1549556828, 1549556828, 1549556828, 1549556828, 1549556828, 1549556828,
      1549556828, 1549556828],
     (1732584193, 4023233417, 2562383102, 271733878, 3285377520)) =
    ([3099113656, 3099113656, 2464285130, 3385444809, 3705967984, 633602965, 2475922323,
      2475922323, 989427291, 1448498774, 399407115, 1591330717, 3102761548, 1313754702,
      3957709164, 233581501],
     (676435863, 3045002908, 2454122640, 2703735364, 3566559976))"
  by (simp add: sha1_rounds_unfold sha1_f_def sha1_k_def rotl_def)

lemma vec_outer_block1_rounds2:
  "sha1_rounds 20 20
    ([3099113656, 3099113656, 2464285130, 3385444809, 3705967984, 633602965, 2475922323,
      2475922323, 989427291, 1448498774, 399407115, 1591330717, 3102761548, 1313754702,
      3957709164, 233581501],
     (676435863, 3045002908, 2454122640, 2703735364, 3566559976)) =
    ([3691327600, 2694881440, 3106030964, 676969488, 1620662396, 1347440720, 1583108254,
      3693191010, 3196171777, 2059217819, 1719272296, 90421878, 527302242, 1667457891,
      1592174848, 4226137980],
     (340252501, 157208521, 3861158471, 1993257049, 1576199873))"
  by (simp add: sha1_rounds_unfold sha1_f_def sha1_k_def rotl_def)

lemma vec_outer_block1_rounds3:
  "sha1_rounds 20 40
    ([3691327600, 2694881440, 3106030964, 676969488, 1620662396, 1347440720, 1583108254,
      3693191010, 3196171777, 2059217819, 1719272296, 90421878, 527302242, 1667457891,
      1592174848, 4226137980],
     (340252501, 157208521, 3861158471, 1993257049, 1576199873)) =
    ([4057699758, 3468156114, 1341310163, 1497709655, 3482211052, 3537031890, 1345783499,
      1620659231, 3305381948, 202116108, 836098, 2109947520, 1954592810, 615645923,
      2832064442, 2262305315],
     (2911174, 3595994266, 3777613933, 3389375106, 2189744639))"
  by (simp add: sha1_rounds_unfold sha1_f_def sha1_k_def rotl_def)

lemma vec_outer_block1_rounds4:
  "sha1_rounds 20 60
    ([4057699758, 3468156114, 1341310163, 1497709655, 3482211052, 3537031890, 1345783499,
      1620659231, 3305381948, 202116108, 836098, 2109947520, 1954592810, 615645923,
      2832064442, 2262305315],
     (2911174, 3595994266, 3777613933, 3389375106, 2189744639)) =
    ([448730327, 928137253, 1582641055, 3789864399, 2596833982, 2482566890, 812709815,
      2732306622, 2853505882, 1251049125, 3606794175, 1453307297, 3295633094, 1667457891,
      3791771130, 2254799295],
     (1771518352, 3204842981, 435463286, 2334901033, 3969768584))"
  by (simp add: sha1_rounds_unfold sha1_f_def sha1_k_def rotl_def)

lemma vec_outer_compress1:
  "sha1_compress sha1_init
     [CHR 0x37, CHR 0x39, CHR 0x25, CHR 0x5C, CHR 0x5C, CHR 0x5C, CHR 0x5C, CHR 0x5C,
      CHR 0x5C, CHR 0x5C, CHR 0x5C, CHR 0x5C, CHR 0x5C, CHR 0x5C, CHR 0x5C, CHR 0x5C,
      CHR 0x5C, CHR 0x5C, CHR 0x5C, CHR 0x5C, CHR 0x5C, CHR 0x5C, CHR 0x5C, CHR 0x5C,
      CHR 0x5C, CHR 0x5C, CHR 0x5C, CHR 0x5C, CHR 0x5C, CHR 0x5C, CHR 0x5C, CHR 0x5C,
      CHR 0x5C, CHR 0x5C, CHR 0x5C, CHR 0x5C, CHR 0x5C, CHR 0x5C, CHR 0x5C, CHR 0x5C,
      CHR 0x5C, CHR 0x5C, CHR 0x5C, CHR 0x5C, CHR 0x5C, CHR 0x5C, CHR 0x5C, CHR 0x5C,
      CHR 0x5C, CHR 0x5C, CHR 0x5C, CHR 0x5C, CHR 0x5C, CHR 0x5C, CHR 0x5C, CHR 0x5C,
      CHR 0x5C, CHR 0x5C, CHR 0x5C, CHR 0x5C, CHR 0x5C, CHR 0x5C, CHR 0x5C, CHR 0x5C] =
     (3504102545, 2933109102, 2997846388, 2606634911, 2960178808)"
  by (simp add: sha1_compress_def sha1_rounds_80 sha1_init_def vec_outer_words1
      vec_outer_block1_rounds1 vec_outer_block1_rounds2 vec_outer_block1_rounds3 vec_outer_block1_rounds4)

lemma vec_outer_words2:
  "sha1_words
     [CHR 0x0E, CHR 0xFE, CHR 0x15, CHR 0xF9, CHR 0x16, CHR 0x1A, CHR 0xB7, CHR 0x28,
      CHR 0xA2, CHR 0x6F, CHR 0x1D, CHR 0xC3, CHR 0x32, CHR 0xF2, CHR 0x66, CHR 0x99,
      CHR 0x13, CHR 0xDC, CHR 0x50, CHR 0x7E, CHR 0x80, CHR 0x00, CHR 0x00, CHR 0x00,
      CHR 0x00, CHR 0x00, CHR 0x00, CHR 0x00, CHR 0x00, CHR 0x00, CHR 0x00, CHR 0x00,
      CHR 0x00, CHR 0x00, CHR 0x00, CHR 0x00, CHR 0x00, CHR 0x00, CHR 0x00, CHR 0x00,
      CHR 0x00, CHR 0x00, CHR 0x00, CHR 0x00, CHR 0x00, CHR 0x00, CHR 0x00, CHR 0x00,
      CHR 0x00, CHR 0x00, CHR 0x00, CHR 0x00, CHR 0x00, CHR 0x00, CHR 0x00, CHR 0x00,
      CHR 0x00, CHR 0x00, CHR 0x00, CHR 0x00, CHR 0x00, CHR 0x00, CHR 0x02, CHR 0xA0] =
     [251532793, 370849576, 2725191107, 854746777, 333205630, 2147483648, 0, 0, 0, 0, 0, 0,
      0, 0, 0, 672]"
  by (simp add: sha1_words_def be32_def upt_rec)

lemma vec_outer_block2_rounds1:
  "sha1_rounds 20 0
    ([251532793, 370849576, 2725191107, 854746777, 333205630, 2147483648, 0, 0, 0, 0, 0, 0,
      0, 0, 0, 672],
     (3504102545, 2933109102, 2997846388, 2606634911, 2960178808)) =
    ([3021727288, 3335339127, 2940328883, 1748486449, 1071536133, 3441488291, 379760148,
      3506269113, 4067831606, 2698977671, 1295859966, 2803928971, 1250684825, 1020919756,
      3456021304, 372681501],
     (2413243873, 2986570616, 4203804516, 3377528335, 3332571822))"
  by (simp add: sha1_rounds_unfold sha1_f_def sha1_k_def rotl_def)

lemma vec_outer_block2_rounds2:
  "sha1_rounds 20 20
    ([3021727288, 3335339127, 2940328883, 1748486449, 1071536133, 3441488291, 379760148,
      3506269113, 4067831606, 2698977671, 1295859966, 2803928971, 1250684825, 1020919756,
      3456021304, 372681501],
     (2413243873, 2986570616, 4203804516, 3377528335, 3332571822)) =
    ([3364072695, 1817799419, 4112896990, 1563335593, 4059283360, 3940115522, 2606876875,
      1935943716, 1247750185, 3148869059, 3232310339, 233025245, 3980308566, 4244416527,
      2454860949, 1131827961],
     (2171576490, 2656548618, 620890681, 3942347474, 2064159671))"
  by (simp add: sha1_rounds_unfold sha1_f_def sha1_k_def rotl_def)

lemma vec_outer_block2_rounds3:
  "sha1_rounds 20 40
    ([3364072695, 1817799419, 4112896990, 1563335593, 4059283360, 3940115522, 2606876875,
      1935943716, 1247750185, 3148869059, 3232310339, 233025245, 3980308566, 4244416527,
      2454860949, 1131827961],
     (2171576490, 2656548618, 620890681, 3942347474, 2064159671)) =
    ([1836133995, 3601310656, 916919368, 3449385707, 2494866282, 1677594301, 3694765807,
      2066347990, 3821488170, 1781137331, 2477675049, 3094900832, 3439931039, 855025055,
      239442650, 1903184308],
     (3959075790, 3437927484, 4011839784, 1821855251, 2365482695))"
  by (simp add: sha1_rounds_unfold sha1_f_def sha1_k_def rotl_def)

lemma vec_outer_block2_rounds4:
  "sha1_rounds 20 60
    ([1836133995, 3601310656, 916919368, 3449385707, 2494866282, 1677594301, 3694765807,
      2066347990, 3821488170, 1781137331, 2477675049, 3094900832, 3439931039, 855025055,
      239442650, 1903184308],
     (3959075790, 3437927484, 4011839784, 1821855251, 2365482695)) =
    ([4131555132, 1467222805, 1815372882, 744852955, 1705344118, 2172716554, 3870511143,
      3507871615, 1763601127, 3833818675, 1297554869, 2505935897, 719702060, 1805937178,
      141427960, 1447736545],
     (228605684, 165927224, 165345474, 1538029777, 1814885985))"
  by (simp add: sha1_rounds_unfold sha1_f_def sha1_k_def rotl_def)

lemma vec_outer_compress2:
  "sha1_compress (3504102545, 2933109102, 2997846388, 2606634911, 2960178808)
     [CHR 0x0E, CHR 0xFE, CHR 0x15, CHR 0xF9, CHR 0x16, CHR 0x1A, CHR 0xB7, CHR 0x28,
      CHR 0xA2, CHR 0x6F, CHR 0x1D, CHR 0xC3, CHR 0x32, CHR 0xF2, CHR 0x66, CHR 0x99,
      CHR 0x13, CHR 0xDC, CHR 0x50, CHR 0x7E, CHR 0x80, CHR 0x00, CHR 0x00, CHR 0x00,
      CHR 0x00, CHR 0x00, CHR 0x00, CHR 0x00, CHR 0x00, CHR 0x00, CHR 0x00, CHR 0x00,
      CHR 0x00, CHR 0x00, CHR 0x00, CHR 0x00, CHR 0x00, CHR 0x00, CHR 0x00, CHR 0x00,
      CHR 0x00, CHR 0x00, CHR 0x00, CHR 0x00, CHR 0x00, CHR 0x00, CHR 0x00, CHR 0x00,
      CHR 0x00, CHR 0x00, CHR 0x00, CHR 0x00, CHR 0x00, CHR 0x00, CHR 0x00, CHR 0x00,
      CHR 0x00, CHR 0x00, CHR 0x00, CHR 0x00, CHR 0x00, CHR 0x00, CHR 0x02, CHR 0xA0] =
     (3732708229, 3099036326, 3163191862, 4144664688, 480097497)"
  by (simp add: sha1_compress_def sha1_rounds_80 sha1_init_def vec_outer_words2
      vec_outer_block2_rounds1 vec_outer_block2_rounds2 vec_outer_block2_rounds3 vec_outer_block2_rounds4)

lemma vec_outer_sha1:
  "sha1
     [CHR 0x37, CHR 0x39, CHR 0x25, CHR 0x5C, CHR 0x5C, CHR 0x5C, CHR 0x5C, CHR 0x5C,
      CHR 0x5C, CHR 0x5C, CHR 0x5C, CHR 0x5C, CHR 0x5C, CHR 0x5C, CHR 0x5C, CHR 0x5C,
      CHR 0x5C, CHR 0x5C, CHR 0x5C, CHR 0x5C, CHR 0x5C, CHR 0x5C, CHR 0x5C, CHR 0x5C,
      CHR 0x5C, CHR 0x5C, CHR 0x5C, CHR 0x5C, CHR 0x5C, CHR 0x5C, CHR 0x5C, CHR 0x5C,
      CHR 0x5C, CHR 0x5C, CHR 0x5C, CHR 0x5C, CHR 0x5C, CHR 0x5C, CHR 0x5C, CHR 0x5C,
      CHR 0x5C, CHR 0x5C, CHR 0x5C, CHR 0x5C, CHR 0x5C, CHR 0x5C, CHR 0x5C, CHR 0x5C,
      CHR 0x5C, CHR 0x5C, CHR 0x5C, CHR 0x5C, CHR 0x5C, CHR 0x5C, CHR 0x5C, CHR 0x5C,
      CHR 0x5C, CHR 0x5C, CHR 0x5C, CHR 0x5C, CHR 0x5C, CHR 0x5C, CHR 0x5C, CHR 0x5C,
      CHR 0x0E, CHR 0xFE, CHR 0x15, CHR 0xF9, CHR 0x16, CHR 0x1A, CHR 0xB7, CHR 0x28,
      CHR 0xA2, CHR 0x6F, CHR 0x1D, CHR 0xC3, CHR 0x32, CHR 0xF2, CHR 0x66, CHR 0x99,
      CHR 0x13, CHR 0xDC, CHR 0x50, CHR 0x7E] =
     [CHR 0xDE, CHR 0x7C, CHR 0x9B, CHR 0x85, CHR 0xB8, CHR 0xB7, CHR 0x8A, CHR 0xA6,
      CHR 0xBC, CHR 0x8A, CHR 0x7A, CHR 0x36, CHR 0xF7, CHR 0x0A, CHR 0x90, CHR 0x70,
      CHR 0x1C, CHR 0x9D, CHR 0xB4, CHR 0xD9]"
  by (simp add: sha1_def Let_def vec_outer_pad sha1_blocks_2 vec_outer_compress1 vec_outer_compress2
      bytes_of_u32_def char_of_def bit_0)

lemma hmac_sha1_vector:
  "hmac_sha1 ''key'' ''The quick brown fox jumps over the lazy dog'' =
     [CHR 0xDE, CHR 0x7C, CHR 0x9B, CHR 0x85, CHR 0xB8, CHR 0xB7, CHR 0x8A, CHR 0xA6,
      CHR 0xBC, CHR 0x8A, CHR 0x7A, CHR 0x36, CHR 0xF7, CHR 0x0A, CHR 0x90, CHR 0x70,
      CHR 0x1C, CHR 0x9D, CHR 0xB4, CHR 0xD9]"
  by (simp add: hmac_sha1_def vec_ipad vec_opad vec_inner_sha1 vec_outer_sha1)

text \<open>
  \<^bold>\<open>C7.\<close> \<^verbatim>\<open>hmacSha1\<close> returns exactly 10 bytes, the first 10 of the 20-byte
  HMAC-SHA-1 tag of the message under the key; for the key \<^verbatim>\<open>key\<close> and the message
  \<^verbatim>\<open>The quick brown fox jumps over the lazy dog\<close> the tag is
  \<^verbatim>\<open>de7c9b85b8b78aa6bc8a7a36f70a90701c9db4d9\<close> and the result \<^verbatim>\<open>de7c9b85b8b78aa6bc8a\<close>.
\<close>

theorem hmacSha1_truncation:
  "length (hmacSha1 k m) = 10
   \<and> length (hmac_sha1 k m) = 20
   \<and> hmacSha1 k m = take 10 (hmac_sha1 k m)
   \<and> hmac_sha1 ''key'' ''The quick brown fox jumps over the lazy dog'' =
       [CHR 0xDE, CHR 0x7C, CHR 0x9B, CHR 0x85, CHR 0xB8, CHR 0xB7, CHR 0x8A, CHR 0xA6,
        CHR 0xBC, CHR 0x8A, CHR 0x7A, CHR 0x36, CHR 0xF7, CHR 0x0A, CHR 0x90, CHR 0x70,
        CHR 0x1C, CHR 0x9D, CHR 0xB4, CHR 0xD9]
   \<and> hmacSha1 ''key'' ''The quick brown fox jumps over the lazy dog'' =
       [CHR 0xDE, CHR 0x7C, CHR 0x9B, CHR 0x85, CHR 0xB8, CHR 0xB7, CHR 0x8A, CHR 0xA6,
        CHR 0xBC, CHR 0x8A]"
proof -
  have trunc: "hmacSha1 k m = take 10 (hmac_sha1 k m)" for k m
    by (simp add: hmacSha1_def left_def AUTH_LEN_def)
  have len: "length (hmacSha1 k m) = 10"
    by (simp add: trunc length_hmac_sha1)
  have vec: "hmacSha1 ''key'' ''The quick brown fox jumps over the lazy dog'' =
       [CHR 0xDE, CHR 0x7C, CHR 0x9B, CHR 0x85, CHR 0xB8, CHR 0xB7, CHR 0x8A, CHR 0xA6,
        CHR 0xBC, CHR 0x8A]"
    by (simp only: trunc hmac_sha1_vector) simp
  from trunc [of k m] len vec show ?thesis
    by (simp add: length_hmac_sha1 hmac_sha1_vector)
qed

end
